theory Spec2Isabelle
  imports Complex_Main "HOL-Library.Sublist"
begin

section \<open>Strings and numbers of the host language\<close>

text \<open>
  Strings are \<open>string\<close> (lists of characters). Text outside ASCII that the source writes
  in its literals is given by its UTF-8 bytes. \<open>join\<close> is \<open>Array.prototype.join\<close> on an
  array of strings.
\<close>

fun join :: "string \<Rightarrow> string list \<Rightarrow> string" where
  "join sep [] = []"
| "join sep [x] = x"
| "join sep (x # y # ys) = x @ sep @ join sep (y # ys)"

text \<open>Decimal rendering of an integer, as \<open>String(n)\<close> gives for an integral number.\<close>

definition digitChar :: "nat \<Rightarrow> char" where
  "digitChar d = char_of (48 + d)"

fun showNat :: "nat \<Rightarrow> string" where
  "showNat n = (if n < 10 then [digitChar n] else showNat (n div 10) @ [digitChar (n mod 10)])"

declare showNat.simps [simp del]

definition showInt :: "int \<Rightarrow> string" where
  "showInt i = (if i < 0 then CHR ''-'' # showNat (nat (- i)) else showNat (nat i))"

text \<open>
  A number of the host language is a \<open>real\<close>. Its rendering \<open>String(x)\<close> is a parameter
  \<open>numStr\<close> of every function that renders numbers; \<open>integralNumStr\<close> is that rendering
  on the integral numbers.
\<close>

definition integralNumStr :: "real \<Rightarrow> string" where
  "integralNumStr x = showInt \<lfloor>x\<rfloor>"

section \<open>Output formatter\<close>

subsection \<open>Column labels\<close>

text \<open>
  \<^verbatim>\<open>
  function columnLabel(index: number): string {
    let label = '';
    let n = index;
    while (n >= 0) {
      label = String.fromCharCode(65 + (n % 26)) + label;
      n = Math.floor(n / 26) - 1;
    }
    return label;
  }
  \<close>
  The loop variable runs over the integers (it ends at \<open>-1\<close>); the argument is a 0-based
  column index.
\<close>

function columnLabel_loop :: "int \<Rightarrow> string \<Rightarrow> string" where
  "columnLabel_loop n label =
     (if n \<ge> 0 then columnLabel_loop (n div 26 - 1) (char_of (65 + n mod 26) # label)
      else label)"
  by pat_completeness auto
termination
  by (relation "measure (\<lambda>(n, label). nat (n + 1))") auto

declare columnLabel_loop.simps [simp del]

definition columnLabel :: "nat \<Rightarrow> string" where
  "columnLabel index = columnLabel_loop (int index) []"

subsection \<open>Cell values and escaping\<close>

text \<open>
  A cell is \<open>string | number | boolean | null | undefined\<close>, over a representation \<open>'n\<close>
  of numbers (\<open>real\<close> in the client).
\<close>

datatype 'n cell = CString string | CNumber 'n | CBoolean bool | CNull | CUndefined

text \<open>\<open>String(cell ?? '')\<close>\<close>

fun cellText :: "('n \<Rightarrow> string) \<Rightarrow> 'n cell \<Rightarrow> string" where
  "cellText numStr (CString s) = s"
| "cellText numStr (CNumber n) = numStr n"
| "cellText numStr (CBoolean b) = (if b then ''true'' else ''false'')"
| "cellText numStr CNull = []"
| "cellText numStr CUndefined = []"

text \<open>
  \<^verbatim>\<open>text.replace(/\|/g, '\\|').replace(/\n/g, ' ')\<close>: every pipe becomes backslash and
  pipe, then every line feed becomes a space.
\<close>

definition replacePipes :: "string \<Rightarrow> string" where
  "replacePipes text = concat (map (\<lambda>c. if c = CHR ''|'' then [CHR 0x5C, CHR ''|''] else [c]) text)"

definition replaceNewlines :: "string \<Rightarrow> string" where
  "replaceNewlines text = concat (map (\<lambda>c. if c = CHR 0x0A then '' '' else [c]) text)"

definition escapeMarkdown :: "string \<Rightarrow> string" where
  "escapeMarkdown text = replaceNewlines (replacePipes text)"

subsection \<open>The table renderer\<close>

text \<open>
  \<^verbatim>\<open>
  export function formatAsMarkdownTable(data, hasHeader = false): string {
    if (!data || data.length === 0) { return '(empty)'; }
    const colCount = Math.max(...data.map(row => row.length));
    if (colCount === 0) { return '(empty)'; }
    let truncated = false;
    let rows = data;
    if (rows.length > MAX_ROWS + (hasHeader ? 1 : 0)) {
      rows = rows.slice(0, MAX_ROWS + (hasHeader ? 1 : 0));
      truncated = true;
    }
    let headerRow, dataRows;
    if (hasHeader && rows.length > 0) {
      headerRow = rows[0].map(cell => String(cell ?? ''));
      dataRows = rows.slice(1);
    } else {
      headerRow = Array.from({ length: colCount }, (_, i) => columnLabel(i));
      dataRows = rows;
    }
    while (headerRow.length < colCount) { headerRow.push(columnLabel(headerRow.length)); }
    const lines = [];
    lines.push('| ' + headerRow.join(' | ') + ' |');
    lines.push('| ' + headerRow.map(() => '---').join(' | ') + ' |');
    for (const row of dataRows) {
      const cells = [];
      for (let i = 0; i < colCount; i++) {
        const val = i < row.length ? row[i] : undefined;
        cells.push(escapeMarkdown(String(val ?? '')));
      }
      lines.push('| ' + cells.join(' | ') + ' |');
    }
    let result = lines.join('\n');
    if (truncated) { result += <notice with MAX_ROWS, MAX_ROWS and
                                 data.length - (hasHeader ? 1 : 0)>; }
    return result;
  }
  \<close>
  The model names the intermediate values of the source: \<open>colCount\<close>, \<open>rows\<close>, \<open>headerRow\<close>,
  \<open>dataRows\<close>, the \<open>cells\<close> of a row and \<open>lines\<close>.
\<close>

definition MAX_ROWS :: nat where
  "MAX_ROWS = 500"

text \<open>
  \<open>Math.max(...data.map(row => row.length))\<close>, on a non-empty array. The spread passes one
  argument for each row, and a call with more arguments than the engine accepts throws a
  \<open>RangeError\<close>. The number of arguments the engine accepts is the parameter \<open>argLimit\<close>
  of the renderer and of everything that calls it.
\<close>

datatype render_error = RangeError

definition colCountOf :: "nat \<Rightarrow> 'a list list \<Rightarrow> render_error + nat" where
  "colCountOf argLimit data =
     (if length data > argLimit then Inl RangeError else Inr (fold max (map length data) 0))"

text \<open>\<open>'| ' + cells.join(' | ') + ' |'\<close>\<close>

definition rowLine :: "string list \<Rightarrow> string" where
  "rowLine cells = ''| '' @ join '' | '' cells @ '' |''"

text \<open>
  The inner loop over \<open>i < colCount\<close>: the cells of one data row, a cell missing from a
  short row read as \<open>undefined\<close>.
\<close>

definition rowCells :: "('n \<Rightarrow> string) \<Rightarrow> nat \<Rightarrow> 'n cell list \<Rightarrow> string list" where
  "rowCells numStr colCount row =
     map (\<lambda>i. escapeMarkdown (cellText numStr (if i < length row then row ! i else CUndefined)))
       [0..<colCount]"

text \<open>\<open>while (headerRow.length < colCount) headerRow.push(columnLabel(headerRow.length))\<close>\<close>

function padHeader :: "nat \<Rightarrow> string list \<Rightarrow> string list" where
  "padHeader colCount headerRow =
     (if length headerRow < colCount
      then padHeader colCount (headerRow @ [columnLabel (length headerRow)])
      else headerRow)"
  by pat_completeness auto
termination
  by (relation "measure (\<lambda>(colCount, headerRow). colCount - length headerRow)") auto

declare padHeader.simps [simp del]

text \<open>The notice appended to a truncated table; \<open>totalRows\<close> is the number of data rows.\<close>

definition truncationNotice :: "nat \<Rightarrow> string" where
  "truncationNotice totalRows =
     [CHR 0x0A, CHR 0x0A] @ [CHR 0xE2, CHR 0x9A, CHR 0xA0, CHR 0xEF, CHR 0xB8, CHR 0x8F] @ '' ''
     @ showNat MAX_ROWS
     @ [CHR 0xE8, CHR 0xA1, CHR 0x8C, CHR 0xE3, CHR 0x82, CHR 0x92, CHR 0xE8, CHR 0xB6, CHR 0x85,
        CHR 0xE3, CHR 0x81, CHR 0x88, CHR 0xE3, CHR 0x82, CHR 0x8B, CHR 0xE3, CHR 0x81, CHR 0x9F,
        CHR 0xE3, CHR 0x82, CHR 0x81, CHR 0xE3, CHR 0x80, CHR 0x81, CHR 0xE5, CHR 0x85, CHR 0x88,
        CHR 0xE9, CHR 0xA0, CHR 0xAD]
     @ showNat MAX_ROWS
     @ [CHR 0xE8, CHR 0xA1, CHR 0x8C, CHR 0xE3, CHR 0x81, CHR 0xAE, CHR 0xE3, CHR 0x81, CHR 0xBF,
        CHR 0xE8, CHR 0xA1, CHR 0xA8, CHR 0xE7, CHR 0xA4, CHR 0xBA, CHR 0xE3, CHR 0x81, CHR 0x97,
        CHR 0xE3, CHR 0x81, CHR 0xA6, CHR 0xE3, CHR 0x81, CHR 0x84, CHR 0xE3, CHR 0x81, CHR 0xBE,
        CHR 0xE3, CHR 0x81, CHR 0x99, CHR 0xEF, CHR 0xBC, CHR 0x88, CHR 0xE5, CHR 0x85, CHR 0xA8]
     @ showNat totalRows
     @ [CHR 0xE8, CHR 0xA1, CHR 0x8C, CHR 0xEF, CHR 0xBC, CHR 0x89]"

text \<open>
  The rows kept for display, the header row and the data rows, as the source computes
  them before it builds \<open>lines\<close>.
\<close>

definition limitOf :: "bool \<Rightarrow> nat" where
  "limitOf hasHeader = MAX_ROWS + (if hasHeader then 1 else 0)"

definition keptRows :: "'a list \<Rightarrow> bool \<Rightarrow> 'a list" where
  "keptRows data hasHeader =
     (if length data > limitOf hasHeader then take (limitOf hasHeader) data else data)"

definition headerRowOf ::
  "('n \<Rightarrow> string) \<Rightarrow> nat \<Rightarrow> 'n cell list list \<Rightarrow> bool \<Rightarrow> string list" where
  "headerRowOf numStr colCount data hasHeader =
     (let rows = keptRows data hasHeader in
      padHeader colCount
        (if hasHeader \<and> length rows > 0 then map (cellText numStr) (hd rows)
         else map columnLabel [0..<colCount]))"

definition dataRowsOf :: "'n cell list list \<Rightarrow> bool \<Rightarrow> 'n cell list list" where
  "dataRowsOf data hasHeader =
     (let rows = keptRows data hasHeader in
      if hasHeader \<and> length rows > 0 then tl rows else rows)"

definition tableLines ::
  "('n \<Rightarrow> string) \<Rightarrow> nat \<Rightarrow> 'n cell list list \<Rightarrow> bool \<Rightarrow> string list" where
  "tableLines numStr colCount data hasHeader =
     (let headerRow = headerRowOf numStr colCount data hasHeader in
      [rowLine headerRow, rowLine (map (\<lambda>_. ''---'') headerRow)]
      @ map (\<lambda>row. rowLine (rowCells numStr colCount row)) (dataRowsOf data hasHeader))"

definition formatAsMarkdownTable ::
  "nat \<Rightarrow> ('n \<Rightarrow> string) \<Rightarrow> 'n cell list list \<Rightarrow> bool \<Rightarrow> render_error + string" where
  "formatAsMarkdownTable argLimit numStr data hasHeader =
     (if data = [] then Inr ''(empty)''
      else
        (case colCountOf argLimit data of
           Inl e \<Rightarrow> Inl e
         | Inr colCount \<Rightarrow>
             if colCount = 0 then Inr ''(empty)''
             else
               let result = join [CHR 0x0A] (tableLines numStr colCount data hasHeader) in
               if length data > limitOf hasHeader
               then Inr (result @ truncationNotice (length data - (if hasHeader then 1 else 0)))
               else Inr result))"

subsection \<open>The formatting renderer\<close>

text \<open>
  The grid data read by \<open>getFormatting\<close>: rows of cells, each with an optional effective
  format and an optional formatted value, as the remote service's schema declares them.
  A number is a \<open>real\<close>; a field that may be absent is an \<open>option\<close>.
\<close>

record color =
  red :: "real option"
  green :: "real option"
  blue :: "real option"

record color_style =
  rgbColor :: "color option"

record number_format =
  type :: "string option"
  pattern :: "string option"

record text_format =
  bold :: "bool option"
  italic :: "bool option"
  strikethrough :: "bool option"
  fontSize :: "real option"
  fontFamily :: "string option"
  foregroundColor :: "color option"
  foregroundColorStyle :: "color_style option"

record cell_format =
  textFormat :: "text_format option"
  backgroundColor :: "color option"
  numberFormat :: "number_format option"
  horizontalAlignment :: "string option"

record cell_data =
  effectiveFormat :: "cell_format option"
  formattedValue :: "string option"

record row_data =
  rowValues :: "cell_data list option"

text \<open>
  \<open>Math.round((channel ?? 0) * 255).toString(16).padStart(2, '0')\<close> for one colour channel.
  The product is a product of doubles, rounded as the floating-point arithmetic rounds it:
  it is the parameter \<open>times255\<close> of the renderer. \<open>Math.round\<close> gives the nearest integer of
  a double, a half going up.
\<close>

definition hexDigit :: "nat \<Rightarrow> char" where
  "hexDigit d = (if d < 10 then char_of (48 + d) else char_of (87 + d))"

fun toHexNat :: "nat \<Rightarrow> string" where
  "toHexNat n = (if n < 16 then [hexDigit n] else toHexNat (n div 16) @ [hexDigit (n mod 16)])"

declare toHexNat.simps [simp del]

definition toString16 :: "int \<Rightarrow> string" where
  "toString16 i = (if i < 0 then CHR ''-'' # toHexNat (nat (- i)) else toHexNat (nat i))"

definition padStart2 :: "string \<Rightarrow> string" where
  "padStart2 s = replicate (2 - length s) CHR ''0'' @ s"

definition channelHex :: "(real \<Rightarrow> real) \<Rightarrow> real option \<Rightarrow> string" where
  "channelHex times255 c =
     padStart2 (toString16 \<lfloor>times255 (case c of None \<Rightarrow> 0 | Some x \<Rightarrow> x) + 1 / 2\<rfloor>)"

definition formatColor :: "(real \<Rightarrow> real) \<Rightarrow> color \<Rightarrow> string" where
  "formatColor times255 c =
     ''#'' @ channelHex times255 (red c) @ channelHex times255 (green c)
     @ channelHex times255 (blue c)"

text \<open>The \<open>props\<close> array built for one effective format, test by test as in the source.\<close>

definition textProps ::
  "(real \<Rightarrow> string) \<Rightarrow> (real \<Rightarrow> real) \<Rightarrow> text_format \<Rightarrow> string list" where
  "textProps numStr times255 tf =
     (if bold tf = Some True then [''bold''] else [])
     @ (if italic tf = Some True then [''italic''] else [])
     @ (if strikethrough tf = Some True then [''strikethrough''] else [])
     @ (case fontSize tf of None \<Rightarrow> []
        | Some sz \<Rightarrow> if sz \<noteq> 0 then [''fontSize: '' @ numStr sz] else [])
     @ (case foregroundColorStyle tf of None \<Rightarrow> []
        | Some st \<Rightarrow> (case rgbColor st of None \<Rightarrow> [] | Some c \<Rightarrow> [''color: '' @ formatColor times255 c]))"

definition cellProps ::
  "(real \<Rightarrow> string) \<Rightarrow> (real \<Rightarrow> real) \<Rightarrow> cell_format \<Rightarrow> string list" where
  "cellProps numStr times255 fmt =
     (case textFormat fmt of None \<Rightarrow> [] | Some tf \<Rightarrow> textProps numStr times255 tf)
     @ (case backgroundColor fmt of None \<Rightarrow> [] | Some c \<Rightarrow> [''bg: '' @ formatColor times255 c])
     @ (case numberFormat fmt of None \<Rightarrow> []
        | Some nf \<Rightarrow>
            [''format: '' @ (case type nf of None \<Rightarrow> ''undefined'' | Some t \<Rightarrow> t) @ '' (''
             @ (case pattern nf of None \<Rightarrow> ''default''
                | Some p \<Rightarrow> if p = [] then ''default'' else p) @ '')''])
     @ (case horizontalAlignment fmt of None \<Rightarrow> []
        | Some a \<Rightarrow> if a \<noteq> [] then [''align: '' @ a] else [])"

text \<open>
  The body of the loop over the cells of a row, and of the loop over the rows: each takes
  \<open>lines\<close> and returns it with what the iteration pushed.
\<close>

definition cellStep ::
  "(real \<Rightarrow> string) \<Rightarrow> (real \<Rightarrow> real) \<Rightarrow> string list \<Rightarrow> cell_data \<Rightarrow> string list" where
  "cellStep numStr times255 lines cell =
     (case effectiveFormat cell of
        None \<Rightarrow> lines
      | Some fmt \<Rightarrow>
          let addr = (case formattedValue cell of None \<Rightarrow> ''(empty)'' | Some v \<Rightarrow> v);
              props = cellProps numStr times255 fmt
          in if length props > 0
             then lines @ [''- **'' @ addr @ ''**: '' @ join '', '' props]
             else lines)"

definition rowStep ::
  "(real \<Rightarrow> string) \<Rightarrow> (real \<Rightarrow> real) \<Rightarrow> string list \<Rightarrow> row_data \<Rightarrow> string list" where
  "rowStep numStr times255 lines row =
     (case rowValues row of None \<Rightarrow> lines | Some cells \<Rightarrow> foldl (cellStep numStr times255) lines cells)"

definition formatCellFormatting ::
  "(real \<Rightarrow> string) \<Rightarrow> (real \<Rightarrow> real) \<Rightarrow> row_data list \<Rightarrow> string \<Rightarrow> string" where
  "formatCellFormatting numStr times255 gridData range' =
     (let lines = foldl (rowStep numStr times255) [''## Cell Formatting ('' @ range' @ '')'', []] gridData;
          lines' = (if length lines \<le> 2 then lines @ [''No formatting data found.''] else lines)
      in join [CHR 0x0A] lines')"

section \<open>Remote resource client\<close>

subsection \<open>Requests, responses and the remote service\<close>

text \<open>
  The remote service is a parameter: one function for each remote method the client calls,
  over a state \<open>'w\<close> of the service. A call either throws or answers, and leaves the
  service in a new state. The client's side of the connection records every request it
  sends, in order.
\<close>

datatype err_code = CodeNumber int | CodeText string

datatype thrown =
    Coded err_code "string option"
  | ErrorObject string
  | OtherValue string

datatype grid_range = GridRange real real real real real

datatype batch_request =
    DeleteSheet real
  | RepeatCell grid_range cell_format string

datatype request =
    SpreadsheetsGet string string
  | ValuesGet string string string
  | BatchUpdate string "batch_request list"

record api_gridProperties =
  api_rowCount :: "real option"
  api_columnCount :: "real option"

record api_sheet =
  api_sheetId :: real
  api_title :: string
  api_gridProperties :: "api_gridProperties option"

record api_spreadsheet =
  api_spreadsheetId :: string
  api_properties_title :: string
  api_properties_locale :: "string option"
  api_properties_timeZone :: "string option"
  api_sheets :: "api_sheet list option"

record 'w sheets_api =
  spreadsheets_get :: "string \<Rightarrow> string \<Rightarrow> 'w \<Rightarrow> (thrown + api_spreadsheet) \<times> 'w"
  values_get :: "string \<Rightarrow> string \<Rightarrow> string \<Rightarrow> 'w \<Rightarrow> (thrown + real cell list list option) \<times> 'w"
  batchUpdate :: "string \<Rightarrow> batch_request list \<Rightarrow> 'w \<Rightarrow> (thrown + unit) \<times> 'w"

record 'w world =
  remote :: 'w
  sent :: "request list"

subsection \<open>Error translation\<close>

definition notFoundText :: string where
  "notFoundText =
     [CHR 0xE3, CHR 0x82, CHR 0xB9, CHR 0xE3, CHR 0x83, CHR 0x97, CHR 0xE3, CHR 0x83, CHR 0xAC,
      CHR 0xE3, CHR 0x83, CHR 0x83, CHR 0xE3, CHR 0x83, CHR 0x89, CHR 0xE3, CHR 0x82, CHR 0xB7,
      CHR 0xE3, CHR 0x83, CHR 0xBC, CHR 0xE3, CHR 0x83, CHR 0x88, CHR 0xE3, CHR 0x81, CHR 0x8C,
      CHR 0xE8, CHR 0xA6, CHR 0x8B, CHR 0xE3, CHR 0x81, CHR 0xA4, CHR 0xE3, CHR 0x81, CHR 0x8B,
      CHR 0xE3, CHR 0x82, CHR 0x8A, CHR 0xE3, CHR 0x81, CHR 0xBE, CHR 0xE3, CHR 0x81, CHR 0x9B,
      CHR 0xE3, CHR 0x82, CHR 0x93, CHR 0xE3, CHR 0x80, CHR 0x82, CHR 0x49, CHR 0x44, CHR 0xE3,
      CHR 0x82, CHR 0x92, CHR 0xE7, CHR 0xA2, CHR 0xBA, CHR 0xE8, CHR 0xAA, CHR 0x8D, CHR 0xE3,
      CHR 0x81, CHR 0x97, CHR 0xE3, CHR 0x80, CHR 0x81, CHR 0xE3, CHR 0x82, CHR 0xB5, CHR 0xE3,
      CHR 0x83, CHR 0xBC, CHR 0xE3, CHR 0x83, CHR 0x93, CHR 0xE3, CHR 0x82, CHR 0xB9, CHR 0xE3,
      CHR 0x82, CHR 0xA2, CHR 0xE3, CHR 0x82, CHR 0xAB, CHR 0xE3, CHR 0x82, CHR 0xA6, CHR 0xE3,
      CHR 0x83, CHR 0xB3, CHR 0xE3, CHR 0x83, CHR 0x88, CHR 0xE3, CHR 0x81, CHR 0xAB, CHR 0xE5,
      CHR 0x85, CHR 0xB1, CHR 0xE6, CHR 0x9C, CHR 0x89, CHR 0xE3, CHR 0x81, CHR 0x97, CHR 0xE3,
      CHR 0x81, CHR 0xA6, CHR 0xE3, CHR 0x81, CHR 0x8F, CHR 0xE3, CHR 0x81, CHR 0xA0, CHR 0xE3,
      CHR 0x81, CHR 0x95, CHR 0xE3, CHR 0x81, CHR 0x84, CHR 0xE3, CHR 0x80, CHR 0x82]"

definition forbiddenText :: string where
  "forbiddenText =
     [CHR 0xE6, CHR 0xA8, CHR 0xA9, CHR 0xE9, CHR 0x99, CHR 0x90, CHR 0xE3, CHR 0x81, CHR 0x8C,
      CHR 0xE3, CHR 0x81, CHR 0x82, CHR 0xE3, CHR 0x82, CHR 0x8A, CHR 0xE3, CHR 0x81, CHR 0xBE,
      CHR 0xE3, CHR 0x81, CHR 0x9B, CHR 0xE3, CHR 0x82, CHR 0x93, CHR 0xE3, CHR 0x80, CHR 0x82,
      CHR 0xE3, CHR 0x82, CHR 0xB9, CHR 0xE3, CHR 0x83, CHR 0x97, CHR 0xE3, CHR 0x83, CHR 0xAC,
      CHR 0xE3, CHR 0x83, CHR 0x83, CHR 0xE3, CHR 0x83, CHR 0x89, CHR 0xE3, CHR 0x82, CHR 0xB7,
      CHR 0xE3, CHR 0x83, CHR 0xBC, CHR 0xE3, CHR 0x83, CHR 0x88, CHR 0xE3, CHR 0x82, CHR 0x92,
      CHR 0xE3, CHR 0x82, CHR 0xB5, CHR 0xE3, CHR 0x83, CHR 0xBC, CHR 0xE3, CHR 0x83, CHR 0x93,
      CHR 0xE3, CHR 0x82, CHR 0xB9, CHR 0xE3, CHR 0x82, CHR 0xA2, CHR 0xE3, CHR 0x82, CHR 0xAB,
      CHR 0xE3, CHR 0x82, CHR 0xA6, CHR 0xE3, CHR 0x83, CHR 0xB3, CHR 0xE3, CHR 0x83, CHR 0x88,
      CHR 0xE3, CHR 0x81, CHR 0xAE, CHR 0xE3, CHR 0x83, CHR 0xA1, CHR 0xE3, CHR 0x83, CHR 0xBC,
      CHR 0xE3, CHR 0x83, CHR 0xAB, CHR 0xE3, CHR 0x82, CHR 0xA2, CHR 0xE3, CHR 0x83, CHR 0x89,
      CHR 0xE3, CHR 0x83, CHR 0xAC, CHR 0xE3, CHR 0x82, CHR 0xB9, CHR 0xE3, CHR 0x81, CHR 0xAB,
      CHR 0xE5, CHR 0x85, CHR 0xB1, CHR 0xE6, CHR 0x9C, CHR 0x89, CHR 0xE3, CHR 0x81, CHR 0x97,
      CHR 0xE3, CHR 0x81, CHR 0xA6, CHR 0xE3, CHR 0x81, CHR 0x8F, CHR 0xE3, CHR 0x81, CHR 0xA0,
      CHR 0xE3, CHR 0x81, CHR 0x95, CHR 0xE3, CHR 0x81, CHR 0x84, CHR 0xE3, CHR 0x80, CHR 0x82]"

definition badRequestText :: string where
  "badRequestText =
     [CHR 0xE7, CHR 0x84, CHR 0xA1, CHR 0xE5, CHR 0x8A, CHR 0xB9, CHR 0xE3, CHR 0x81, CHR 0xAA,
      CHR 0xE3, CHR 0x83, CHR 0xAA, CHR 0xE3, CHR 0x82, CHR 0xAF, CHR 0xE3, CHR 0x82, CHR 0xA8,
      CHR 0xE3, CHR 0x82, CHR 0xB9, CHR 0xE3, CHR 0x83, CHR 0x88, CHR 0xE3, CHR 0x81, CHR 0xA7,
      CHR 0xE3, CHR 0x81, CHR 0x99, CHR 0xE3, CHR 0x80, CHR 0x82, CHR 0xE7, CHR 0xAF, CHR 0x84,
      CHR 0xE5, CHR 0x9B, CHR 0xB2, CHR 0xE6, CHR 0x8C, CHR 0x87, CHR 0xE5, CHR 0xAE, CHR 0x9A,
      CHR 0xE3, CHR 0x81, CHR 0xAF, CHR 0x41, CHR 0x31, CHR 0xE8, CHR 0xA8, CHR 0x98, CHR 0xE6,
      CHR 0xB3, CHR 0x95, CHR 0xE3, CHR 0x82, CHR 0x92, CHR 0xE4, CHR 0xBD, CHR 0xBF, CHR 0xE7,
      CHR 0x94, CHR 0xA8, CHR 0xE3, CHR 0x81, CHR 0x97, CHR 0xE3, CHR 0x81, CHR 0xA6, CHR 0xE3,
      CHR 0x81, CHR 0x8F, CHR 0xE3, CHR 0x81, CHR 0xA0, CHR 0xE3, CHR 0x81, CHR 0x95, CHR 0xE3,
      CHR 0x81, CHR 0x84, CHR 0xEF, CHR 0xBC, CHR 0x88, CHR 0xE4, CHR 0xBE, CHR 0x8B, CHR 0x3A,
      CHR 0x20, CHR 0x53, CHR 0x68, CHR 0x65, CHR 0x65, CHR 0x74, CHR 0x31, CHR 0x21, CHR 0x41,
      CHR 0x31, CHR 0x3A, CHR 0x44, CHR 0x31, CHR 0x30, CHR 0xEF, CHR 0xBC, CHR 0x89, CHR 0xE3,
      CHR 0x80, CHR 0x82, CHR 0x44, CHR 0x65, CHR 0x74, CHR 0x61, CHR 0x69, CHR 0x6C, CHR 0x3A,
      CHR 0x20]"

definition showCode :: "err_code \<Rightarrow> string" where
  "showCode c = (case c of CodeNumber n \<Rightarrow> showInt n | CodeText t \<Rightarrow> t)"

text \<open>
  \<open>handleApiError\<close> always throws an \<open>Error\<close>; the model returns its message.
\<close>

definition handleApiError :: "thrown \<Rightarrow> string \<Rightarrow> string" where
  "handleApiError error context =
     (case error of
        Coded code message \<Rightarrow>
          (if code = CodeNumber 404 then context @ '': '' @ notFoundText
           else if code = CodeNumber 403 then context @ '': '' @ forbiddenText
           else if code = CodeNumber 400
             then context @ '': '' @ badRequestText @ (case message of None \<Rightarrow> [] | Some m \<Rightarrow> m)
           else context @ '' ('' @ showCode code @ ''): ''
                @ (case message of None \<Rightarrow> ''Unknown error''
                   | Some m \<Rightarrow> if m = [] then ''Unknown error'' else m))
      | ErrorObject m \<Rightarrow> context @ '': '' @ m
      | OtherValue v \<Rightarrow> context @ '': '' @ v)"

subsection \<open>Client methods\<close>

record sheetInfo =
  sheetId :: real
  title :: string
  rowCount :: real
  columnCount :: real

record spreadsheetInfo =
  spreadsheetId :: string
  title :: string
  locale' :: string
  timeZone :: string
  sheets :: "sheetInfo list"

definition infoFields :: string where
  "infoFields = ''spreadsheetId,properties.title,properties.locale,properties.timeZone,sheets.properties''"

definition toSheetInfo :: "api_sheet \<Rightarrow> sheetInfo" where
  "toSheetInfo s =
     \<lparr>sheetId = api_sheetId s,
      sheetInfo.title = api_title s,
      rowCount = (case api_gridProperties s of None \<Rightarrow> 0
                  | Some g \<Rightarrow> (case api_rowCount g of None \<Rightarrow> 0 | Some n \<Rightarrow> n)),
      columnCount = (case api_gridProperties s of None \<Rightarrow> 0
                     | Some g \<Rightarrow> (case api_columnCount g of None \<Rightarrow> 0 | Some n \<Rightarrow> n))\<rparr>"

definition getSpreadsheetInfo ::
  "'w sheets_api \<Rightarrow> string \<Rightarrow> 'w world \<Rightarrow> (string + spreadsheetInfo) \<times> 'w world" where
  "getSpreadsheetInfo api sid s =
     (let (r, w') = spreadsheets_get api sid infoFields (remote s);
          s' = \<lparr>remote = w', sent = sent s @ [SpreadsheetsGet sid infoFields]\<rparr>
      in case r of
           Inl e \<Rightarrow> (Inl (handleApiError e ''Failed to get spreadsheet info''), s')
         | Inr d \<Rightarrow>
             (Inr \<lparr>spreadsheetId = api_spreadsheetId d,
                   spreadsheetInfo.title = api_properties_title d,
                   locale' = (case api_properties_locale d of None \<Rightarrow> [] | Some l \<Rightarrow> l),
                   timeZone = (case api_properties_timeZone d of None \<Rightarrow> [] | Some z \<Rightarrow> z),
                   sheets = map toSheetInfo (case api_sheets d of None \<Rightarrow> [] | Some ss \<Rightarrow> ss)\<rparr>,
              s'))"

definition getValues ::
  "'w sheets_api \<Rightarrow> string \<Rightarrow> string \<Rightarrow> 'w world \<Rightarrow> (string + real cell list list) \<times> 'w world" where
  "getValues api sid range' s =
     (let (r, w') = values_get api sid range' ''FORMATTED_VALUE'' (remote s);
          s' = \<lparr>remote = w', sent = sent s @ [ValuesGet sid range' ''FORMATTED_VALUE'']\<rparr>
      in case r of
           Inl e \<Rightarrow> (Inl (handleApiError e (''Failed to read values from '' @ range')), s')
         | Inr vs \<Rightarrow> (Inr (case vs of None \<Rightarrow> [] | Some v \<Rightarrow> v), s'))"

definition deleteSheet ::
  "(real \<Rightarrow> string) \<Rightarrow> 'w sheets_api \<Rightarrow> string \<Rightarrow> real \<Rightarrow> 'w world \<Rightarrow> (string + unit) \<times> 'w world" where
  "deleteSheet numStr api sid sheet s =
     (let (r, w') = batchUpdate api sid [DeleteSheet sheet] (remote s);
          s' = \<lparr>remote = w', sent = sent s @ [BatchUpdate sid [DeleteSheet sheet]]\<rparr>
      in case r of
           Inl e \<Rightarrow> (Inl (handleApiError e (''Failed to delete sheet '' @ numStr sheet)), s')
         | Inr u \<Rightarrow> (Inr (), s'))"

definition updateFormatting ::
  "'w sheets_api \<Rightarrow> string \<Rightarrow> real \<Rightarrow> real \<Rightarrow> real \<Rightarrow> real \<Rightarrow> real \<Rightarrow> cell_format \<Rightarrow> string
     \<Rightarrow> 'w world \<Rightarrow> (string + unit) \<times> 'w world" where
  "updateFormatting api sid sheet startRow endRow startColumn endColumn fmt fields' s =
     (let req = [RepeatCell (GridRange sheet startRow endRow startColumn endColumn) fmt
                   (''userEnteredFormat('' @ fields' @ '')'')];
          (r, w') = batchUpdate api sid req (remote s);
          s' = \<lparr>remote = w', sent = sent s @ [BatchUpdate sid req]\<rparr>
      in case r of
           Inl e \<Rightarrow> (Inl (handleApiError e ''Failed to update formatting''), s')
         | Inr u \<Rightarrow> (Inr (), s'))"

text \<open>
  \<^verbatim>\<open>
  const info = await this.getSpreadsheetInfo(spreadsheetId);
  const sheet = info.sheets.find(s => s.title.toLowerCase() === sheetTitle.toLowerCase());
  if (!sheet) {
    throw new Error(`Sheet "${sheetTitle}" not found. Available sheets: ${
      info.sheets.map(s => s.title).join(', ')}`);
  }
  return sheet.sheetId;
  \<close>
  \<open>resolveSheetId\<close>: the first sheet whose lower-cased title equals the lower-cased
  argument. \<open>toLowerCase\<close> is the parameter \<open>lc\<close>.
\<close>

definition resolveSheetId ::
  "(string \<Rightarrow> string) \<Rightarrow> 'w sheets_api \<Rightarrow> string \<Rightarrow> string \<Rightarrow> 'w world \<Rightarrow> (string + real) \<times> 'w world" where
  "resolveSheetId lc api sid sheetTitle s =
     (case getSpreadsheetInfo api sid s of
        (Inl e, s') \<Rightarrow> (Inl e, s')
      | (Inr info, s') \<Rightarrow>
          (case find (\<lambda>sh. lc (sheetInfo.title sh) = lc sheetTitle) (sheets info) of
             None \<Rightarrow>
               (Inl (''Sheet '' @ [CHR 0x22] @ sheetTitle @ [CHR 0x22] @ '' not found. Available sheets: ''
                     @ join '', '' (map sheetInfo.title (sheets info))), s')
           | Some sheet \<Rightarrow> (Inr (sheetId sheet), s')))"

section \<open>Tool handlers and dispatcher\<close>

subsection \<open>Response envelopes\<close>

datatype content_item = TextContent string

record envelope =
  isError :: "bool option"
  content :: "content_item list"

definition createTextResponse :: "string \<Rightarrow> envelope" where
  "createTextResponse text' = \<lparr>isError = None, content = [TextContent text']\<rparr>"

definition createErrorResponse :: "string \<Rightarrow> envelope" where
  "createErrorResponse message = \<lparr>isError = Some True, content = [TextContent message]\<rparr>"

subsection \<open>delete-sheet\<close>

text \<open>
  \<^verbatim>\<open>
  try {
    const client = getSheetsClient();
    const sheetId = await client.resolveSheetId(params.spreadsheetId, params.sheetTitle);
    let backupData = '';
    try {
      const values = await client.getValues(params.spreadsheetId, `${params.sheetTitle}!A:ZZ`);
      if (values.length > 0) {
        backupData = `\n\n## Deleted Sheet Data (backup)\n\n${formatAsMarkdownTable(values)}`;
      }
    } catch { }
    await client.deleteSheet(params.spreadsheetId, sheetId);
    return createTextResponse(
      `Sheet "${params.sheetTitle}" (ID: ${sheetId}) deleted successfully.${backupData}`);
  } catch (error) {
    return createErrorResponse(
      `Failed to delete sheet: ${error instanceof Error ? error.message : String(error)}`);
  }
  \<close>
  \<open>getSheetsClient()\<close> either throws an \<open>Error\<close> (its message on the left) or gives the
  client. Every handler runs inside one \<open>try\<close>, whose \<open>catch\<close> turns the message of what
  was thrown into an error response. Diagnostic logging writes to the error stream only
  and is left out.
\<close>

record delete_sheet_params =
  spreadsheetId :: string
  sheetTitle :: string

definition backupHeading :: string where
  "backupHeading = [CHR 0x0A, CHR 0x0A] @ ''## Deleted Sheet Data (backup)'' @ [CHR 0x0A, CHR 0x0A]"

text \<open>
  The inner \<open>try\<close> of delete-sheet: the read before deletion and the rendering of what was
  read. Its bare \<open>catch\<close> swallows whatever either throws, and \<open>backupData\<close> is then still
  empty.
\<close>

definition readBackup ::
  "nat \<Rightarrow> (real \<Rightarrow> string) \<Rightarrow> 'w sheets_api \<Rightarrow> delete_sheet_params \<Rightarrow> 'w world
     \<Rightarrow> string \<times> 'w world" where
  "readBackup argLimit numStr client params s =
     (case getValues client (delete_sheet_params.spreadsheetId params)
             (delete_sheet_params.sheetTitle params @ ''!A:ZZ'') s of
        (Inl e, s') \<Rightarrow> ([], s')
      | (Inr vs, s') \<Rightarrow>
          (if length vs > 0
           then (case formatAsMarkdownTable argLimit numStr vs False of
                   Inl e \<Rightarrow> []
                 | Inr table \<Rightarrow> backupHeading @ table)
           else [], s'))"

definition handler_delete_sheet ::
  "nat \<Rightarrow> (string \<Rightarrow> string) \<Rightarrow> (real \<Rightarrow> string) \<Rightarrow> string + 'w sheets_api
     \<Rightarrow> delete_sheet_params \<Rightarrow> 'w world \<Rightarrow> envelope \<times> 'w world" where
  "handler_delete_sheet argLimit lc numStr getSheetsClient params s =
     (case getSheetsClient of
        Inl e \<Rightarrow> (createErrorResponse (''Failed to delete sheet: '' @ e), s)
      | Inr client \<Rightarrow>
          (case resolveSheetId lc client (delete_sheet_params.spreadsheetId params)
                  (delete_sheet_params.sheetTitle params) s of
             (Inl e, s1) \<Rightarrow> (createErrorResponse (''Failed to delete sheet: '' @ e), s1)
           | (Inr sheet, s1) \<Rightarrow>
               (case readBackup argLimit numStr client params s1 of
                  (backupData, s2) \<Rightarrow>
                    (case deleteSheet numStr client (delete_sheet_params.spreadsheetId params) sheet s2 of
                       (Inl e, s3) \<Rightarrow> (createErrorResponse (''Failed to delete sheet: '' @ e), s3)
                     | (Inr u, s3) \<Rightarrow>
                         (createTextResponse
                            (''Sheet '' @ [CHR 0x22] @ delete_sheet_params.sheetTitle params @ [CHR 0x22]
                             @ '' (ID: '' @ numStr sheet @ '') deleted successfully.'' @ backupData),
                          s3)))))"

subsection \<open>update-formatting\<close>

record format_params =
  bold :: "bool option"
  italic :: "bool option"
  strikethrough :: "bool option"
  fontSize :: "real option"
  fontFamily :: "string option"
  foregroundColor :: "color option"
  backgroundColor :: "color option"
  horizontalAlignment :: "string option"
  numberFormat :: "number_format option"

record update_formatting_params =
  spreadsheetId :: string
  sheetTitle :: string
  startRowIndex :: real
  endRowIndex :: real
  startColumnIndex :: real
  endColumnIndex :: real
  format :: format_params

definition emptyTextFormat :: text_format where
  "emptyTextFormat =
     \<lparr>text_format.bold = None, text_format.italic = None, text_format.strikethrough = None,
      text_format.fontSize = None, text_format.fontFamily = None,
      text_format.foregroundColor = None, foregroundColorStyle = None\<rparr>"

definition emptyCellFormat :: cell_format where
  "emptyCellFormat =
     \<lparr>textFormat = None, cell_format.backgroundColor = None, cell_format.numberFormat = None,
      cell_format.horizontalAlignment = None\<rparr>"

text \<open>
  One guarded assignment of the source,
  \<^verbatim>\<open>if (x !== undefined) { target.x = x; fieldParts.push(path); }\<close>,
  on the pair of the object under construction and \<open>fieldParts\<close>.
\<close>

definition assignIf :: "bool \<Rightarrow> ('a \<Rightarrow> 'a) \<Rightarrow> string \<Rightarrow> 'a \<times> string list \<Rightarrow> 'a \<times> string list" where
  "assignIf defined assign path st =
     (if defined then (assign (fst st), snd st @ [path]) else st)"

definition buildTextFormat :: "format_params \<Rightarrow> string list \<Rightarrow> text_format \<times> string list" where
  "buildTextFormat f fieldParts =
     (assignIf (format_params.foregroundColor f \<noteq> None)
        (\<lambda>t. t\<lparr>text_format.foregroundColor := format_params.foregroundColor f\<rparr>)
        ''textFormat.foregroundColor''
      (assignIf (format_params.fontFamily f \<noteq> None)
        (\<lambda>t. t\<lparr>text_format.fontFamily := format_params.fontFamily f\<rparr>)
        ''textFormat.fontFamily''
      (assignIf (format_params.fontSize f \<noteq> None)
        (\<lambda>t. t\<lparr>text_format.fontSize := format_params.fontSize f\<rparr>)
        ''textFormat.fontSize''
      (assignIf (format_params.strikethrough f \<noteq> None)
        (\<lambda>t. t\<lparr>text_format.strikethrough := format_params.strikethrough f\<rparr>)
        ''textFormat.strikethrough''
      (assignIf (format_params.italic f \<noteq> None)
        (\<lambda>t. t\<lparr>text_format.italic := format_params.italic f\<rparr>)
        ''textFormat.italic''
      (assignIf (format_params.bold f \<noteq> None)
        (\<lambda>t. t\<lparr>text_format.bold := format_params.bold f\<rparr>)
        ''textFormat.bold''
      (emptyTextFormat, fieldParts)))))))"

definition buildCellFormat :: "format_params \<Rightarrow> cell_format \<times> string list" where
  "buildCellFormat f =
     (let st0 = (emptyCellFormat, []);
          st1 =
            (if format_params.bold f \<noteq> None \<or> format_params.italic f \<noteq> None
                \<or> format_params.strikethrough f \<noteq> None \<or> format_params.fontSize f \<noteq> None
                \<or> format_params.fontFamily f \<noteq> None \<or> format_params.foregroundColor f \<noteq> None
             then (case buildTextFormat f (snd st0) of
                     (tf, fieldParts) \<Rightarrow> ((fst st0)\<lparr>textFormat := Some tf\<rparr>, fieldParts))
             else st0)
      in assignIf (format_params.numberFormat f \<noteq> None)
           (\<lambda>c. c\<lparr>cell_format.numberFormat := format_params.numberFormat f\<rparr>)
           ''numberFormat''
         (assignIf (format_params.horizontalAlignment f \<noteq> None)
           (\<lambda>c. c\<lparr>cell_format.horizontalAlignment := format_params.horizontalAlignment f\<rparr>)
           ''horizontalAlignment''
         (assignIf (format_params.backgroundColor f \<noteq> None)
           (\<lambda>c. c\<lparr>cell_format.backgroundColor := format_params.backgroundColor f\<rparr>)
           ''backgroundColor''
          st1)))"

definition handler_update_formatting ::
  "(string \<Rightarrow> string) \<Rightarrow> (real \<Rightarrow> string) \<Rightarrow> string + 'w sheets_api \<Rightarrow> update_formatting_params
     \<Rightarrow> 'w world \<Rightarrow> envelope \<times> 'w world" where
  "handler_update_formatting lc numStr getSheetsClient params s =
     (case getSheetsClient of
        Inl e \<Rightarrow> (createErrorResponse (''Failed to update formatting: '' @ e), s)
      | Inr client \<Rightarrow>
          (case resolveSheetId lc client (spreadsheetId params) (sheetTitle params) s of
             (Inl e, s1) \<Rightarrow> (createErrorResponse (''Failed to update formatting: '' @ e), s1)
           | (Inr sheet, s1) \<Rightarrow>
               (case buildCellFormat (format params) of
                  (cellFormat, fieldParts) \<Rightarrow>
                    if length fieldParts = 0
                    then (createErrorResponse ''No formatting properties specified.'', s1)
                    else
                      (case updateFormatting client (spreadsheetId params) sheet
                              (startRowIndex params) (endRowIndex params)
                              (startColumnIndex params) (endColumnIndex params)
                              cellFormat (join '','' fieldParts) s1 of
                         (Inl e, s2) \<Rightarrow>
                           (createErrorResponse (''Failed to update formatting: '' @ e), s2)
                       | (Inr u, s2) \<Rightarrow>
                           (createTextResponse
                              (''Formatting updated for '' @ sheetTitle params @ '' ''
                               @ ''[rows '' @ numStr (startRowIndex params) @ ''-''
                               @ numStr (endRowIndex params) @ '', cols ''
                               @ numStr (startColumnIndex params) @ ''-''
                               @ numStr (endColumnIndex params) @ '']'' @ [CHR 0x0A, CHR 0x0A]
                               @ ''Applied: '' @ join '', '' fieldParts),
                            s2)))))"

subsection \<open>Dispatcher\<close>

text \<open>
  \<^verbatim>\<open>
  const handler = handlers[toolName];
  if (!handler) { return createErrorResponse(`Unknown tool: ${name}`); }
  try {
    const schema = schemas[toolName];
    if (!schema) { return createErrorResponse(`Schema not found for tool: ${name}`); }
    const validatedArgs = schema.parse(args) as any;
    return await handler(validatedArgs);
  } catch (error) {
    if (error instanceof z.ZodError) {
      return createErrorResponse(
        `Invalid arguments for ${name}: ${JSON.stringify(error.errors)}`);
    }
    return createErrorResponse(
      `Tool execution failed: ${error instanceof Error ? error.message : String(error)}`);
  }
  \<close>
  \<open>handlers\<close> and \<open>schemas\<close> are object literals with the same eleven keys. A lookup by an
  arbitrary name finds one of these keys, or a member that every object inherits (a value
  that is truthy but has no \<open>parse\<close> method, so that calling it throws a \<open>TypeError\<close>), or
  nothing. A name found in \<open>handlers\<close> is found in \<open>schemas\<close> too, so the test \<open>!schema\<close>
  never holds where it stands.
\<close>

datatype tool =
    GetSpreadsheetInfo | ReadValues | ReadFormulas | ReadAll | UpdateCells | BatchUpdateCells
  | AppendRows | AddSheet | DeleteSheetTool | GetFormatting | UpdateFormatting

definition toolTable :: "(string \<times> tool) list" where
  "toolTable =
     [(''get-spreadsheet-info'', GetSpreadsheetInfo), (''read-values'', ReadValues),
      (''read-formulas'', ReadFormulas), (''read-all'', ReadAll),
      (''update-cells'', UpdateCells), (''batch-update-cells'', BatchUpdateCells),
      (''append-rows'', AppendRows), (''add-sheet'', AddSheet),
      (''delete-sheet'', DeleteSheetTool), (''get-formatting'', GetFormatting),
      (''update-formatting'', UpdateFormatting)]"

definition objectPrototypeKeys :: "string list" where
  "objectPrototypeKeys =
     [''constructor'', ''toString'', ''toLocaleString'', ''valueOf'', ''hasOwnProperty'',
      ''isPrototypeOf'', ''propertyIsEnumerable'', ''__proto__'', ''__defineGetter__'',
      ''__defineSetter__'', ''__lookupGetter__'', ''__lookupSetter__'']"

datatype lookup = Own tool | Inherited | Undefined

definition lookupKey :: "string \<Rightarrow> lookup" where
  "lookupKey name =
     (case map_of toolTable name of
        Some t \<Rightarrow> Own t
      | None \<Rightarrow> if name \<in> set objectPrototypeKeys then Inherited else Undefined)"

text \<open>
  What the \<open>try\<close> block of the dispatcher can catch: a validation error with its issues, an
  \<open>Error\<close> with its message, or any other value with its string form. The dispatcher takes
  the validator (\<open>schema.parse\<close>) and the rendering of one issue by \<open>JSON.stringify\<close> as
  arguments; the validator of the schemas of the source and the rendering of its issues
  are \<open>zodParse\<close> and \<open>issueJson\<close> below.
\<close>

datatype 'i caught = ZodError "'i list" | ErrorInstance string | NonError string

definition stringifyErrors :: "('i \<Rightarrow> string) \<Rightarrow> 'i list \<Rightarrow> string" where
  "stringifyErrors issueJson errors = ''['' @ join '','' (map issueJson errors) @ '']''"

definition callTool_try ::
  "(tool \<Rightarrow> 'raw \<Rightarrow> 'i list + 'args) \<Rightarrow> (tool \<Rightarrow> 'args \<Rightarrow> 's \<Rightarrow> ('i caught + envelope) \<times> 's)
     \<Rightarrow> lookup \<Rightarrow> 'raw \<Rightarrow> 's \<Rightarrow> ('i caught + envelope) \<times> 's" where
  "callTool_try parse handlers found args s =
     (case found of
        Own t \<Rightarrow>
          (case parse t args of
             Inl issues \<Rightarrow> (Inl (ZodError issues), s)
           | Inr validatedArgs \<Rightarrow> handlers t validatedArgs s)
      | _ \<Rightarrow> (Inl (ErrorInstance ''schema.parse is not a function''), s))"

definition callTool ::
  "(tool \<Rightarrow> 'raw \<Rightarrow> 'i list + 'args) \<Rightarrow> ('i \<Rightarrow> string)
     \<Rightarrow> (tool \<Rightarrow> 'args \<Rightarrow> 's \<Rightarrow> ('i caught + envelope) \<times> 's)
     \<Rightarrow> string \<Rightarrow> 'raw \<Rightarrow> 's \<Rightarrow> envelope \<times> 's" where
  "callTool parse issueJson handlers name args s =
     (case lookupKey name of
        Undefined \<Rightarrow> (createErrorResponse (''Unknown tool: '' @ name), s)
      | found \<Rightarrow>
          (case callTool_try parse handlers found args s of
             (Inr response, s') \<Rightarrow> (response, s')
           | (Inl (ZodError errors), s') \<Rightarrow>
               (createErrorResponse
                  (''Invalid arguments for '' @ name @ '': '' @ stringifyErrors issueJson errors), s')
           | (Inl (ErrorInstance m), s') \<Rightarrow> (createErrorResponse (''Tool execution failed: '' @ m), s')
           | (Inl (NonError v), s') \<Rightarrow> (createErrorResponse (''Tool execution failed: '' @ v), s')))"

subsection \<open>Validation of the arguments\<close>

text \<open>
  The arguments of a call are absent (\<open>undefined\<close>) or a JSON value; an object is the list
  of its properties, each key once. Every schema of the
  source is a \<open>z.object\<close> of the validation library (zod, version 3: the dispatcher reads
  \<open>error.errors\<close>). \<open>shape\<close> lists, for each tool, the keys of its schema in the order of
  the source, with the kind of value each key takes and whether the source marks it
  \<open>.optional()\<close>.
\<close>

datatype jsvalue =
    JUndefined | JNull | JBoolean bool | JNumber real | JString string
  | JArray "jsvalue list" | JObject "(string \<times> jsvalue) list"

datatype field_kind = KString | KNumber | KArray | KObject

fun shape :: "tool \<Rightarrow> (string \<times> field_kind \<times> bool) list" where
  "shape GetSpreadsheetInfo = [(''spreadsheetId'', KString, False)]"
| "shape ReadValues = [(''spreadsheetId'', KString, False), (''range'', KString, False)]"
| "shape ReadFormulas = [(''spreadsheetId'', KString, False), (''range'', KString, False)]"
| "shape ReadAll = [(''spreadsheetId'', KString, False), (''range'', KString, False)]"
| "shape UpdateCells =
     [(''spreadsheetId'', KString, False), (''range'', KString, False), (''values'', KArray, False)]"
| "shape BatchUpdateCells = [(''spreadsheetId'', KString, False), (''data'', KArray, False)]"
| "shape AppendRows =
     [(''spreadsheetId'', KString, False), (''range'', KString, False), (''values'', KArray, False)]"
| "shape AddSheet =
     [(''spreadsheetId'', KString, False), (''title'', KString, False),
      (''rowCount'', KNumber, True), (''columnCount'', KNumber, True)]"
| "shape DeleteSheetTool = [(''spreadsheetId'', KString, False), (''sheetTitle'', KString, False)]"
| "shape GetFormatting = [(''spreadsheetId'', KString, False), (''range'', KString, False)]"
| "shape UpdateFormatting =
     [(''spreadsheetId'', KString, False), (''sheetTitle'', KString, False),
      (''startRowIndex'', KNumber, False), (''endRowIndex'', KNumber, False),
      (''startColumnIndex'', KNumber, False), (''endColumnIndex'', KNumber, False),
      (''format'', KObject, False)]"

text \<open>
  The names the library gives to the types of values (\<open>getParsedType\<close>) and to the kinds
  it expects.
\<close>

fun parsedType :: "jsvalue \<Rightarrow> string" where
  "parsedType JUndefined = ''undefined''"
| "parsedType JNull = ''null''"
| "parsedType (JBoolean b) = ''boolean''"
| "parsedType (JNumber x) = ''number''"
| "parsedType (JString t) = ''string''"
| "parsedType (JArray vs) = ''array''"
| "parsedType (JObject fields') = ''object''"

fun kindName :: "field_kind \<Rightarrow> string" where
  "kindName KString = ''string''"
| "kindName KNumber = ''number''"
| "kindName KArray = ''array''"
| "kindName KObject = ''object''"

text \<open>
  An issue of the library is an object \<open>{...issueData, path, message}\<close>. The issue data of
  a value of the wrong type is \<open>{code: 'invalid_type', expected, received}\<close>, and its message
  is \<open>Required\<close> when the value is \<open>undefined\<close>; the data of the other issues (those the
  library finds inside a value that is present) are of a type \<open>'p\<close> left open.
\<close>

datatype path_element = Key string | Index nat

datatype 'p issue_data = InvalidType string string | OtherIssue 'p

datatype 'p issue =
  Issue (issueData: "'p issue_data") (issuePath: "path_element list") (issueMessage: string)

definition invalidType :: "string \<Rightarrow> string \<Rightarrow> path_element list \<Rightarrow> 'p issue" where
  "invalidType expected received p =
     Issue (InvalidType expected received) p
       (if received = ''undefined'' then ''Required''
        else ''Expected '' @ expected @ '', received '' @ received)"

text \<open>
  \<open>z.object(...).parse(args)\<close>. Arguments that are not an object get one issue, at the empty
  path. In an object every key of the shape is looked up (\<open>data[key]\<close>) and its value
  validated, and the issues of all the keys are collected, each at a path that starts with
  its key: an \<open>undefined\<close> value is accepted for an optional key and is of the wrong type
  for the others; the validation of a value that is present is the parameter \<open>check\<close>,
  which gives the issues found in the value, at their paths inside it, and the value to
  hand on when there is none. Keys outside the shape are dropped.
\<close>

definition propertyOf :: "(string \<times> jsvalue) list \<Rightarrow> string \<Rightarrow> jsvalue" where
  "propertyOf fields' k = (case map_of fields' k of None \<Rightarrow> JUndefined | Some v \<Rightarrow> v)"

definition under :: "string \<Rightarrow> 'p issue \<Rightarrow> 'p issue" where
  "under k i = Issue (issueData i) (Key k # issuePath i) (issueMessage i)"

definition fieldIssues ::
  "(tool \<Rightarrow> string \<Rightarrow> jsvalue \<Rightarrow> 'p issue list \<times> jsvalue) \<Rightarrow> tool \<Rightarrow> (string \<times> jsvalue) list
     \<Rightarrow> string \<times> field_kind \<times> bool \<Rightarrow> 'p issue list" where
  "fieldIssues check t fields' entry =
     (case entry of
        (k, kind, optional) \<Rightarrow>
          if propertyOf fields' k = JUndefined
          then (if optional then [] else [invalidType (kindName kind) ''undefined'' [Key k]])
          else map (under k) (fst (check t k (propertyOf fields' k))))"

definition outputFields ::
  "(tool \<Rightarrow> string \<Rightarrow> jsvalue \<Rightarrow> 'p issue list \<times> jsvalue) \<Rightarrow> tool \<Rightarrow> (string \<times> jsvalue) list
     \<Rightarrow> (string \<times> jsvalue) list" where
  "outputFields check t fields' =
     List.map_filter
       (\<lambda>entry. case entry of
          (k, kind, optional) \<Rightarrow>
            (case map_of fields' k of
               None \<Rightarrow> None
             | Some v \<Rightarrow> Some (k, if v = JUndefined then JUndefined else snd (check t k v))))
       (shape t)"

definition zodParse ::
  "(tool \<Rightarrow> string \<Rightarrow> jsvalue \<Rightarrow> 'p issue list \<times> jsvalue) \<Rightarrow> tool \<Rightarrow> jsvalue
     \<Rightarrow> 'p issue list + jsvalue" where
  "zodParse check t args =
     (case args of
        JObject fields' \<Rightarrow>
          (let issues = concat (map (fieldIssues check t fields') (shape t))
           in if issues = [] then Inr (JObject (outputFields check t fields')) else Inl issues)
      | _ \<Rightarrow> Inl [invalidType ''object'' (parsedType args) []])"

text \<open>
  \<open>JSON.stringify\<close> of a string, of a path and of an issue. The rendering of the data of the
  issues left open is the parameter \<open>dataJson\<close>.
\<close>

definition quoted :: "string \<Rightarrow> string" where
  "quoted k = [CHR 0x22] @ k @ [CHR 0x22]"

definition hex4 :: "nat \<Rightarrow> string" where
  "hex4 n = [hexDigit (n div 4096 mod 16), hexDigit (n div 256 mod 16),
             hexDigit (n div 16 mod 16), hexDigit (n mod 16)]"

definition jsonEscape :: "char \<Rightarrow> string" where
  "jsonEscape c =
     (if c = CHR 0x22 then [CHR 0x5C, CHR 0x22]
      else if c = CHR 0x5C then [CHR 0x5C, CHR 0x5C]
      else if c = CHR 0x08 then [CHR 0x5C, CHR ''b'']
      else if c = CHR 0x0C then [CHR 0x5C, CHR ''f'']
      else if c = CHR 0x0A then [CHR 0x5C, CHR ''n'']
      else if c = CHR 0x0D then [CHR 0x5C, CHR ''r'']
      else if c = CHR 0x09 then [CHR 0x5C, CHR ''t'']
      else if (of_char c :: nat) < 32 then [CHR 0x5C, CHR ''u''] @ hex4 (of_char c)
      else [c])"

definition jsonString :: "string \<Rightarrow> string" where
  "jsonString t = quoted (concat (map jsonEscape t))"

fun pathElementJson :: "path_element \<Rightarrow> string" where
  "pathElementJson (Key k) = jsonString k"
| "pathElementJson (Index n) = showNat n"

definition pathJson :: "path_element list \<Rightarrow> string" where
  "pathJson p = ''['' @ join '','' (map pathElementJson p) @ '']''"

definition issueJson :: "('p \<Rightarrow> string) \<Rightarrow> 'p issue \<Rightarrow> string" where
  "issueJson dataJson i =
     ''{''
     @ (case issueData i of
          InvalidType expected received \<Rightarrow>
            quoted ''code'' @ '':'' @ quoted ''invalid_type'' @ '',''
            @ quoted ''expected'' @ '':'' @ jsonString expected @ '',''
            @ quoted ''received'' @ '':'' @ jsonString received
        | OtherIssue d \<Rightarrow> dataJson d)
     @ '','' @ quoted ''path'' @ '':'' @ pathJson (issuePath i)
     @ '','' @ quoted ''message'' @ '':'' @ jsonString (issueMessage i)
     @ ''}''"

text \<open>
  The fields of an object that the validation rejects: the keys of the shape that get at
  least one issue.
\<close>

definition violatedKeys ::
  "(tool \<Rightarrow> string \<Rightarrow> jsvalue \<Rightarrow> 'p issue list \<times> jsvalue) \<Rightarrow> tool \<Rightarrow> (string \<times> jsvalue) list
     \<Rightarrow> string list" where
  "violatedKeys check t fields' =
     map fst (filter (\<lambda>entry. fieldIssues check t fields' entry \<noteq> []) (shape t))"

section \<open>Notions used to state the properties\<close>

text \<open>
  The value of a column label read as a numeral of the bijective base-26 system: the
  letters \<open>A\<close> to \<open>Z\<close> are the digits 1 to 26.
\<close>

definition labelValue :: "string \<Rightarrow> int" where
  "labelValue label = foldl (\<lambda>acc c. acc * 26 + (of_char c - 64)) 0 label"

definition isUpperLetter :: "char \<Rightarrow> bool" where
  "isUpperLetter c = (65 \<le> (of_char c :: int) \<and> (of_char c :: int) \<le> 90)"

text \<open>
  How a Markdown table row is read: a row is one line (it holds no line feed), cut at
  every pipe that does not directly follow a backslash. \<open>escaped\<close> tells whether the
  character before was a backslash.
\<close>

fun mdSplitRow :: "bool \<Rightarrow> string \<Rightarrow> string list" where
  "mdSplitRow escaped [] = [[]]"
| "mdSplitRow escaped (c # cs) =
     (if c = CHR ''|'' \<and> \<not> escaped then [] # mdSplitRow False cs
      else (let segs = mdSplitRow (c = CHR 0x5C) cs in (c # hd segs) # tl segs))"

text \<open>
  The attributes of a format object, the path that names each in a field mask, and the
  attributes a format object provides, in the order of the schema.
\<close>

datatype attribute =
    Bold | Italic | Strikethrough | FontSize | FontFamily | ForegroundColor
  | BackgroundColor | HorizontalAlignment | NumberFormat

fun attributePath :: "attribute \<Rightarrow> string" where
  "attributePath Bold = ''textFormat.bold''"
| "attributePath Italic = ''textFormat.italic''"
| "attributePath Strikethrough = ''textFormat.strikethrough''"
| "attributePath FontSize = ''textFormat.fontSize''"
| "attributePath FontFamily = ''textFormat.fontFamily''"
| "attributePath ForegroundColor = ''textFormat.foregroundColor''"
| "attributePath BackgroundColor = ''backgroundColor''"
| "attributePath HorizontalAlignment = ''horizontalAlignment''"
| "attributePath NumberFormat = ''numberFormat''"

fun provided :: "format_params \<Rightarrow> attribute \<Rightarrow> bool" where
  "provided f Bold = (format_params.bold f \<noteq> None)"
| "provided f Italic = (format_params.italic f \<noteq> None)"
| "provided f Strikethrough = (format_params.strikethrough f \<noteq> None)"
| "provided f FontSize = (format_params.fontSize f \<noteq> None)"
| "provided f FontFamily = (format_params.fontFamily f \<noteq> None)"
| "provided f ForegroundColor = (format_params.foregroundColor f \<noteq> None)"
| "provided f BackgroundColor = (format_params.backgroundColor f \<noteq> None)"
| "provided f HorizontalAlignment = (format_params.horizontalAlignment f \<noteq> None)"
| "provided f NumberFormat = (format_params.numberFormat f \<noteq> None)"

definition providedAttributes :: "format_params \<Rightarrow> attribute list" where
  "providedAttributes f =
     filter (provided f)
       [Bold, Italic, Strikethrough, FontSize, FontFamily, ForegroundColor,
        BackgroundColor, HorizontalAlignment, NumberFormat]"

text \<open>
  The cells of a grid that get a bullet line: those with an effective format that yields
  at least one property.
\<close>

definition gridCells :: "row_data list \<Rightarrow> cell_data list" where
  "gridCells gridData =
     concat (map (\<lambda>row. case rowValues row of None \<Rightarrow> [] | Some cells \<Rightarrow> cells) gridData)"

definition qualifies ::
  "(real \<Rightarrow> string) \<Rightarrow> (real \<Rightarrow> real) \<Rightarrow> cell_data \<Rightarrow> bool" where
  "qualifies numStr times255 cell =
     (case effectiveFormat cell of None \<Rightarrow> False | Some fmt \<Rightarrow> cellProps numStr times255 fmt \<noteq> [])"

definition bulletLine ::
  "(real \<Rightarrow> string) \<Rightarrow> (real \<Rightarrow> real) \<Rightarrow> cell_data \<Rightarrow> string" where
  "bulletLine numStr times255 cell =
     ''- **'' @ (case formattedValue cell of None \<Rightarrow> ''(empty)'' | Some v \<Rightarrow> v) @ ''**: ''
     @ join '', '' (case effectiveFormat cell of None \<Rightarrow> [] | Some fmt \<Rightarrow> cellProps numStr times255 fmt)"

text \<open>
  Instances used to run the model: \<open>toLowerCase\<close> on ASCII letters, and a remote service
  that holds one sheet, \<open>Data\<close> with id 7, answers every read of values with a given
  result, accepts every batch update, and whose state counts the batch updates applied.
\<close>

definition lowerAscii :: "string \<Rightarrow> string" where
  "lowerAscii t =
     map (\<lambda>c. if (65::nat) \<le> of_char c \<and> of_char c \<le> (90::nat)
            then char_of (of_char c + (32::nat)) else c) t"

definition demoService :: "thrown + real cell list list option \<Rightarrow> nat sheets_api" where
  "demoService valuesAnswer =
     \<lparr>spreadsheets_get = (\<lambda>sid fields' w.
        (Inr \<lparr>api_spreadsheetId = sid, api_properties_title = ''Book'',
              api_properties_locale = None, api_properties_timeZone = None,
              api_sheets = Some [\<lparr>api_sheetId = 7, api_title = ''Data'',
                                  api_gridProperties = None\<rparr>]\<rparr>, w)),
      values_get = (\<lambda>sid range' option w. (valuesAnswer, w)),
      batchUpdate = (\<lambda>sid requests w. (Inr (), Suc w))\<rparr>"

definition noFormat :: format_params where
  "noFormat =
     \<lparr>format_params.bold = None, format_params.italic = None, format_params.strikethrough = None,
      format_params.fontSize = None, format_params.fontFamily = None,
      format_params.foregroundColor = None, format_params.backgroundColor = None,
      format_params.horizontalAlignment = None, format_params.numberFormat = None\<rparr>"

text \<open>
  Instances used to run the dispatcher: a validation of the values that are present which
  accepts them all, issues with no data of the kind left open, and handlers that answer
  every call with the text \<open>done\<close>.
\<close>

definition acceptPresent :: "tool \<Rightarrow> string \<Rightarrow> jsvalue \<Rightarrow> unit issue list \<times> jsvalue" where
  "acceptPresent t k v = ([], v)"

definition noData :: "unit \<Rightarrow> string" where
  "noData d = []"

definition answerDone :: "tool \<Rightarrow> jsvalue \<Rightarrow> nat \<Rightarrow> (unit issue caught + envelope) \<times> nat" where
  "answerDone t validatedArgs s = (Inr (createTextResponse ''done''), s)"

section \<open>Verification of the output formatter\<close>

subsection \<open>Column labels\<close>

lemma columnLabel_loop_prefix:
  "- 1 \<le> n \<Longrightarrow>
   \<exists>pre. columnLabel_loop n label = pre @ label \<and> labelValue pre = n + 1
         \<and> list_all isUpperLetter pre \<and> (pre = []) = (n = - 1)"
proof (induction n label rule: columnLabel_loop.induct)
  case (1 n label)
  show ?case
  proof (cases "0 \<le> n")
    case False
    with 1 have "n = - 1" by simp
    then show ?thesis by (simp add: columnLabel_loop.simps labelValue_def)
  next
    case True
    then have "- 1 \<le> n div 26 - 1" by simp
    from 1(1)[OF True this] obtain pre where
      pre: "columnLabel_loop (n div 26 - 1) (char_of (65 + n mod 26) # label)
              = pre @ char_of (65 + n mod 26) # label"
        "labelValue pre = n div 26 - 1 + 1" "list_all isUpperLetter pre" by blast
    have c: "of_char (char_of (65 + n mod 26) :: char) = (65 + n mod 26 :: int)"
      using True by (simp add: of_char_of)
    have "columnLabel_loop n label = (pre @ [char_of (65 + n mod 26)]) @ label"
      using True pre(1) by (subst columnLabel_loop.simps) simp
    moreover have "labelValue (pre @ [char_of (65 + n mod 26)]) = n + 1"
      using pre(2) c by (simp add: labelValue_def)
    moreover have "list_all isUpperLetter (pre @ [char_of (65 + n mod 26)])"
      using pre(3) c by (simp add: isUpperLetter_def)
    moreover have "(pre @ [char_of (65 + n mod 26)] = []) = (n = - 1)"
      using True by simp
    ultimately show ?thesis by blast
  qed
qed

lemma labelValue_columnLabel:
  "labelValue (columnLabel i) = int i + 1 \<and> list_all isUpperLetter (columnLabel i)
   \<and> columnLabel i \<noteq> []"
  using columnLabel_loop_prefix[of "int i" "[]"] by (auto simp: columnLabel_def)

lemma columnLabel_values:
  "columnLabel 0 = ''A''" "columnLabel 25 = ''Z''" "columnLabel 26 = ''AA''"
  "columnLabel 701 = ''ZZ''" "columnLabel 702 = ''AAA''"
  by code_simp+

text \<open>
  C3. The column label of an index is the numeral of the index plus one in the bijective
  base-26 system, written with the letters A to Z: it is a non-empty word of these letters,
  and reading it back gives the index plus one. So two indices with the same label are
  equal; and the labels of 0, 25, 26, 701 and 702 are A, Z, AA, ZZ and AAA.
\<close>

theorem columnLabel_bijective_base26:
  "columnLabel i \<noteq> [] \<and> list_all isUpperLetter (columnLabel i)
   \<and> labelValue (columnLabel i) = int i + 1
   \<and> (columnLabel i = columnLabel j) = (i = j)
   \<and> columnLabel 0 = ''A'' \<and> columnLabel 25 = ''Z'' \<and> columnLabel 26 = ''AA''
   \<and> columnLabel 701 = ''ZZ'' \<and> columnLabel 702 = ''AAA''"
proof -
  have "i = j" if "columnLabel i = columnLabel j"
  proof -
    from that have "labelValue (columnLabel i) = labelValue (columnLabel j)" by simp
    then show ?thesis by (simp add: labelValue_columnLabel)
  qed
  then have "(columnLabel i = columnLabel j) = (i = j)" by blast
  then show ?thesis by (simp add: labelValue_columnLabel columnLabel_values)
qed

subsection \<open>Width of a table\<close>

lemma padHeader_eq:
  "padHeader colCount headerRow = headerRow @ map columnLabel [length headerRow..<colCount]"
proof (induction colCount headerRow rule: padHeader.induct)
  case (1 colCount headerRow)
  show ?case
  proof (cases "length headerRow < colCount")
    case True
    from 1[OF True] True show ?thesis
      by (subst padHeader.simps) (simp add: upt_conv_Cons)
  next
    case False
    then show ?thesis by (subst padHeader.simps) simp
  qed
qed

lemma widest_set: "fold max (map length data) 0 = Max (insert 0 (length ` set data))"
  using Max.set_eq_fold[of 0 "map length data"] by simp

lemma widest_Max: "data \<noteq> [] \<Longrightarrow> fold max (map length data) 0 = Max (length ` set data)"
  unfolding widest_set by (subst Max_insert) auto

lemma widest_ge: "row \<in> set data \<Longrightarrow> length row \<le> fold max (map length data) 0"
  unfolding widest_set by (auto intro: Max_ge)

lemma widest_zero: "(fold max (map length data) 0 = 0) = (\<forall>row\<in>set data. row = [])"
proof
  assume "fold max (map length data) 0 = 0"
  then show "\<forall>row\<in>set data. row = []" using widest_ge[of _ data] by fastforce
next
  assume "\<forall>row\<in>set data. row = []"
  then have "insert 0 (length ` set data) = {0}" by auto
  show "fold max (map length data) 0 = 0" unfolding widest_set
    by (subst \<open>insert 0 (length ` set data) = {0}\<close>) simp
qed

lemma colCountOf_within:
  "length data \<le> argLimit \<Longrightarrow> colCountOf argLimit data = Inr (fold max (map length data) 0)"
  by (simp add: colCountOf_def)

lemma colCountOf_beyond: "argLimit < length data \<Longrightarrow> colCountOf argLimit data = Inl RangeError"
  by (simp add: colCountOf_def)

lemma rowCells_padded:
  assumes "length row \<le> W"
  shows "rowCells numStr W row =
     map (\<lambda>c. escapeMarkdown (cellText numStr c)) row @ replicate (W - length row) []"
proof (rule nth_equalityI)
  show "length (rowCells numStr W row) =
    length (map (\<lambda>c. escapeMarkdown (cellText numStr c)) row @ replicate (W - length row) [])"
    using assms by (simp add: rowCells_def)
next
  fix i assume "i < length (rowCells numStr W row)"
  then have i: "i < W" by (simp add: rowCells_def)
  show "rowCells numStr W row ! i =
    (map (\<lambda>c. escapeMarkdown (cellText numStr c)) row @ replicate (W - length row) []) ! i"
    using i assms
    by (auto simp: rowCells_def nth_append escapeMarkdown_def replacePipes_def replaceNewlines_def)
qed

lemma headerRowOf_plain: "headerRowOf numStr W data False = map columnLabel [0..<W]"
  by (simp add: headerRowOf_def padHeader_eq)

lemma dataRowsOf_plain: "dataRowsOf data False = take MAX_ROWS data"
  by (simp add: dataRowsOf_def keptRows_def limitOf_def)

lemma tableLines_plain:
  "tableLines numStr W data False =
     rowLine (map columnLabel [0..<W]) # rowLine (replicate W ''---'')
     # map (\<lambda>row. rowLine (rowCells numStr W row)) (take MAX_ROWS data)"
  unfolding tableLines_def headerRowOf_plain dataRowsOf_plain Let_def
  by (simp add: map_replicate_const)

lemma formatAsMarkdownTable_plain:
  assumes "length data \<le> argLimit" and "W = fold max (map length data) 0" and "0 < W"
  shows "formatAsMarkdownTable argLimit numStr data False =
      Inr (join [CHR 0x0A] (tableLines numStr W data False)
        @ (if MAX_ROWS < length data then truncationNotice (length data) else []))"
proof -
  from assms(2,3) have "data \<noteq> []" by auto
  with assms show ?thesis
    by (simp add: formatAsMarkdownTable_def colCountOf_within limitOf_def Let_def)
qed

lemma formatAsMarkdownTable_all_empty:
  "length data \<le> argLimit \<Longrightarrow> \<forall>row\<in>set data. row = [] \<Longrightarrow>
     formatAsMarkdownTable argLimit numStr data hasHeader = Inr ''(empty)''"
  using widest_zero[of data] by (simp add: formatAsMarkdownTable_def colCountOf_within)

lemma formatAsMarkdownTable_beyond:
  "argLimit < length data \<Longrightarrow> formatAsMarkdownTable argLimit numStr data hasHeader = Inl RangeError"
  by (auto simp: formatAsMarkdownTable_def colCountOf_beyond)

lemma formatAsMarkdownTable_returns:
  assumes "length data \<le> argLimit"
  shows "\<exists>table. formatAsMarkdownTable argLimit numStr data hasHeader = Inr table"
proof (cases "data = [] \<or> fold max (map length data) 0 = 0")
  case True
  then show ?thesis using assms
    by (auto simp: formatAsMarkdownTable_def colCountOf_within)
next
  case False
  show ?thesis
  proof (cases "length data > limitOf hasHeader")
    case True
    with False assms show ?thesis
      by (simp add: formatAsMarkdownTable_def colCountOf_within Let_def)
  next
    case no: False
    with False assms show ?thesis
      by (simp add: formatAsMarkdownTable_def colCountOf_within Let_def)
  qed
qed

lemma formatAsMarkdownTable_no_error:
  "length data \<le> argLimit \<Longrightarrow>
     (formatAsMarkdownTable argLimit numStr data hasHeader = Inl e) = False"
  using formatAsMarkdownTable_returns[of data argLimit numStr hasHeader] by auto

lemma formatAsMarkdownTable_within:
  "length data \<le> a \<Longrightarrow> length data \<le> b \<Longrightarrow>
     formatAsMarkdownTable a numStr data hasHeader = formatAsMarkdownTable b numStr data hasHeader"
  by (simp add: formatAsMarkdownTable_def colCountOf_within)

text \<open>
  C1, as the claim states it, fails on a block whose rows are all empty: the block
  \<open>[[]]\<close> is not empty, its widest row has width 0, and the renderer returns the text
  \<open>(empty)\<close>, which has no header, no separator and no data row (here on an engine that
  accepts 100000 arguments in a call).
\<close>

theorem formatAsMarkdownTable_columns_counterexample:
  "[[]] \<noteq> ([] :: real cell list list)
   \<and> formatAsMarkdownTable 100000 integralNumStr [[]] False = Inr ''(empty)''
   \<and> CHR ''|'' \<notin> set ''(empty)''"
  by (simp add: formatAsMarkdownTable_all_empty)

text \<open>
  C1, amended. For every block with at least one row and at least one cell, of no more
  rows than the engine accepts as the arguments of one call, whose widest row has \<open>W\<close>
  cells, the table rendered without an explicit header is: a header line of the \<open>W\<close> labels
  of the columns 0 to \<open>W - 1\<close>, a separator line of \<open>W\<close> cells, and one line for each of the
  first \<open>MAX_ROWS\<close> rows, made of the escaped text of the cells of the row followed by
  \<open>W - length row\<close> empty strings, so of exactly \<open>W\<close> cells; then the truncation notice when
  there are more than \<open>MAX_ROWS\<close> rows.
\<close>

theorem formatAsMarkdownTable_columns:
  assumes "data \<noteq> []" and "length data \<le> argLimit"
    and "W = Max (length ` set data)" and "0 < W"
  shows "formatAsMarkdownTable argLimit numStr data False =
           Inr (join [CHR 0x0A]
             (rowLine (map columnLabel [0..<W]) # rowLine (replicate W ''---'') #
              map (\<lambda>row. rowLine (map (\<lambda>c. escapeMarkdown (cellText numStr c)) row
                                   @ replicate (W - length row) []))
                (take MAX_ROWS data))
           @ (if MAX_ROWS < length data then truncationNotice (length data) else []))
         \<and> length (map columnLabel [0..<W]) = W
         \<and> (\<forall>row \<in> set data.
               length (map (\<lambda>c. escapeMarkdown (cellText numStr c)) row
                       @ replicate (W - length row) []) = W)"
proof -
  have W: "W = fold max (map length data) 0" using assms(1,3) by (simp add: widest_Max)
  have le: "\<And>row. row \<in> set data \<Longrightarrow> length row \<le> W"
    using widest_ge[of _ data] W by simp
  have rows: "map (\<lambda>row. rowLine (rowCells numStr W row)) (take MAX_ROWS data) =
      map (\<lambda>row. rowLine (map (\<lambda>c. escapeMarkdown (cellText numStr c)) row
                                   @ replicate (W - length row) [])) (take MAX_ROWS data)"
    by (rule map_cong[OF refl]) (auto dest!: in_set_takeD le simp: rowCells_padded)
  have "formatAsMarkdownTable argLimit numStr data False =
      Inr (join [CHR 0x0A] (tableLines numStr W data False)
        @ (if MAX_ROWS < length data then truncationNotice (length data) else []))"
    using formatAsMarkdownTable_plain[OF assms(2) W assms(4)] .
  then show ?thesis using le by (simp add: tableLines_plain rows)
qed

theorem formatAsMarkdownTable_columns_witness:
  "[[CString ''Name'', CString ''Age''], [CString ''Ann'']] \<noteq> ([] :: real cell list list)
   \<and> length [[CString ''Name'', CString ''Age''], [CString ''Ann'' :: real cell]] \<le> 100000
   \<and> (2::nat) = Max (length ` set [[CString ''Name'', CString ''Age''], [CString ''Ann'' :: real cell]])
   \<and> formatAsMarkdownTable 100000 integralNumStr
        [[CString ''Name'', CString ''Age''], [CString ''Ann'']] False =
        Inr (''| A | B |'' @ [CHR 0x0A] @ ''| --- | --- |'' @ [CHR 0x0A] @ ''| Name | Age |''
        @ [CHR 0x0A] @ ''| Ann |  |'')"
proof -
  let ?data = "[[CString ''Name'', CString ''Age''], [CString ''Ann'']] :: real cell list list"
  have h1: "?data \<noteq> []" by simp
  have h0: "length ?data \<le> 100000" by simp
  have h2: "(2::nat) = Max (length ` set ?data)" by simp
  have h3: "(0::nat) < 2" by simp
  have e: "escapeMarkdown ''Name'' = ''Name''" "escapeMarkdown ''Age'' = ''Age''"
    "escapeMarkdown ''Ann'' = ''Ann''"
    by (simp_all add: escapeMarkdown_def replacePipes_def replaceNewlines_def)
  have l: "columnLabel 0 = ''A''" "columnLabel (Suc 0) = ''B''"
    by code_simp+
  have r: "replicate 2 ''---'' = [''---'', ''---'']" by (simp add: numeral_2_eq_2)
  from formatAsMarkdownTable_columns[OF h1 h0 h2 h3, of integralNumStr] h1 h0 h2
  show ?thesis by (simp add: l r e rowLine_def MAX_ROWS_def)
qed

subsection \<open>Truncation\<close>

text \<open>
  C2, as the claim states it, fails on a block of 501 rows with no cell: the renderer
  returns the text \<open>(empty)\<close>, with no data row and no notice (here on an engine that
  accepts 100000 arguments in a call).
\<close>

theorem formatAsMarkdownTable_truncation_counterexample:
  "MAX_ROWS < length (replicate 501 ([] :: real cell list))
   \<and> formatAsMarkdownTable 100000 integralNumStr (replicate 501 []) False = Inr ''(empty)''"
  by (simp add: formatAsMarkdownTable_all_empty MAX_ROWS_def)

text \<open>
  C2, amended. For every block of more than \<open>MAX_ROWS\<close> (500) rows and of no more rows than
  the engine accepts as the arguments of one call, at least one of which has a cell, the
  table rendered without an explicit header has exactly 500 data lines, those of the first
  500 rows, after the header and separator lines, and ends with the truncation notice,
  whose last part is the decimal numeral of the number of rows of the block between two
  fixed texts; for 501 rows that numeral is \<open>501\<close>. (\<open>W\<close> is the width of the widest row.)
\<close>

theorem formatAsMarkdownTable_truncation:
  assumes "MAX_ROWS < length data" and "length data \<le> argLimit"
    and "\<exists>row \<in> set data. row \<noteq> []" and "W = Max (length ` set data)"
  shows "formatAsMarkdownTable argLimit numStr data False =
           Inr (join [CHR 0x0A] (tableLines numStr W data False) @ truncationNotice (length data))
         \<and> dataRowsOf data False = take 500 data
         \<and> length (dataRowsOf data False) = 500
         \<and> length (tableLines numStr W data False) = 2 + 500
         \<and> drop 2 (tableLines numStr W data False) =
             map (\<lambda>row. rowLine (rowCells numStr W row)) (take 500 data)
         \<and> (\<exists>before. truncationNotice (length data) =
               before @ showNat (length data) @ [CHR 0xE8, CHR 0xA1, CHR 0x8C, CHR 0xEF, CHR 0xBC, CHR 0x89])
         \<and> (length data = 501 \<longrightarrow> showNat (length data) = ''501'')"
proof -
  from assms(1) have ne: "data \<noteq> []" by auto
  have W: "W = fold max (map length data) 0" using ne assms(4) by (simp add: widest_Max)
  from assms(3) have pos: "0 < W"
    using widest_zero[of data] W by auto
  have out: "formatAsMarkdownTable argLimit numStr data False =
           Inr (join [CHR 0x0A] (tableLines numStr W data False) @ truncationNotice (length data))"
    using assms(1) by (simp add: formatAsMarkdownTable_plain[OF assms(2) W pos])
  have rows: "dataRowsOf data False = take 500 data"
    by (simp add: dataRowsOf_plain MAX_ROWS_def)
  have len: "length (take 500 data) = 500"
    using assms(1) by (simp add: MAX_ROWS_def)
  have notice: "\<exists>before. truncationNotice (length data) =
               before @ showNat (length data) @ [CHR 0xE8, CHR 0xA1, CHR 0x8C, CHR 0xEF, CHR 0xBC, CHR 0x89]"
    unfolding truncationNotice_def by (metis append.assoc)
  have s501: "showNat 501 = ''501''"
    by code_simp
  show ?thesis
    using out rows len notice s501
    by (simp add: tableLines_plain MAX_ROWS_def)
qed

theorem formatAsMarkdownTable_truncation_witness:
  "MAX_ROWS < length (replicate 501 [CString ''x'' :: real cell])
   \<and> length (replicate 501 [CString ''x'' :: real cell]) \<le> 100000
   \<and> (\<exists>row \<in> set (replicate 501 [CString ''x'' :: real cell]). row \<noteq> [])
   \<and> (1::nat) = Max (length ` set (replicate 501 [CString ''x'' :: real cell]))
   \<and> formatAsMarkdownTable 100000 integralNumStr (replicate 501 [CString ''x'']) False =
       Inr (join [CHR 0x0A] (tableLines integralNumStr 1 (replicate 501 [CString ''x'']) False)
            @ truncationNotice 501)
   \<and> length (tableLines integralNumStr 1 (replicate 501 [CString ''x'']) False) = 502
   \<and> showNat (length (replicate 501 [CString ''x'' :: real cell])) = ''501''"
proof -
  let ?data = "replicate 501 [CString ''x'' :: real cell]"
  have h1: "MAX_ROWS < length ?data" by (simp add: MAX_ROWS_def)
  have h0: "length ?data \<le> 100000" by simp
  have h2: "\<exists>row \<in> set ?data. row \<noteq> []" by simp
  have h3: "(1::nat) = Max (length ` set ?data)" by simp
  from formatAsMarkdownTable_truncation[OF h1 h0 h2 h3, of integralNumStr] h1 h0 h2 h3
  show ?thesis by simp
qed

subsection \<open>Escaping\<close>

lemma escapeMarkdown_Nil: "escapeMarkdown [] = []"
  by (simp add: escapeMarkdown_def replacePipes_def replaceNewlines_def)

lemma escapeMarkdown_Cons:
  "escapeMarkdown (c # t) =
     (if c = CHR ''|'' then [CHR 0x5C, CHR ''|'']
      else if c = CHR 0x0A then '' '' else [c]) @ escapeMarkdown t"
  by (simp add: escapeMarkdown_def replacePipes_def replaceNewlines_def)

lemma escapeMarkdown_no_newline: "CHR 0x0A \<notin> set (escapeMarkdown t)"
  by (induction t) (auto simp: escapeMarkdown_Nil escapeMarkdown_Cons)

lemma mdSplitRow_cell:
  "mdSplitRow e (escapeMarkdown t @ CHR '' '' # rest) =
     (escapeMarkdown t @ CHR '' '' # hd (mdSplitRow False rest)) # tl (mdSplitRow False rest)"
proof (induction t arbitrary: e)
  case Nil
  show ?case by (simp add: escapeMarkdown_Nil Let_def)
next
  case (Cons c t)
  show ?case by (simp add: escapeMarkdown_Cons Cons.IH Let_def)
qed

lemma mdSplitRow_cells:
  "ts \<noteq> [] \<Longrightarrow>
   mdSplitRow False (CHR '' '' # join '' | '' (map escapeMarkdown ts) @ '' |'') =
     map (\<lambda>t. CHR '' '' # escapeMarkdown t @ '' '') ts @ [[]]"
proof (induction ts rule: list_nonempty_induct)
  case (single t)
  show ?case using mdSplitRow_cell[of False t "''|''"] by (simp add: Let_def)
next
  case (cons t ts)
  then obtain t' ts' where ts: "ts = t' # ts'" by (cases ts) auto
  have "mdSplitRow False (CHR '' '' # join '' | '' (map escapeMarkdown (t # ts)) @ '' |'') =
        mdSplitRow False (CHR '' '' # escapeMarkdown t @ CHR '' '' # CHR ''|''
           # (CHR '' '' # join '' | '' (map escapeMarkdown ts) @ '' |''))"
    by (simp add: ts)
  also have "\<dots> = (CHR '' '' # escapeMarkdown t @ '' '') #
       mdSplitRow False (CHR '' '' # join '' | '' (map escapeMarkdown ts) @ '' |'')"
    using mdSplitRow_cell[of False t
        "CHR ''|'' # (CHR '' '' # join '' | '' (map escapeMarkdown ts) @ '' |'')"]
    by (simp add: Let_def)
  finally show ?case using cons.IH by simp
qed

lemma join_no_newline:
  "\<forall>x\<in>set xs. CHR 0x0A \<notin> set x \<Longrightarrow> CHR 0x0A \<notin> set sep \<Longrightarrow> CHR 0x0A \<notin> set (join sep xs)"
  by (induction sep xs rule: join.induct) auto

lemma rowCells_map: "rowCells numStr colCount row =
   map escapeMarkdown
     (map (\<lambda>i. cellText numStr (if i < length row then row ! i else CUndefined)) [0..<colCount])"
  by (simp add: rowCells_def)

text \<open>
  Data rows. A data row is rendered for a positive number of columns. Whatever the cells
  hold, pipes and line feeds included, the rendered line holds no line feed, and cutting it
  at the pipes that do not directly follow a backslash gives back exactly the cells of the
  row, each between two spaces, between the empty texts before the first pipe and after
  the last: \<open>colCount\<close> cells, none split and none merged.
\<close>

theorem escaped_row_well_formed:
  assumes "0 < colCount"
  shows "mdSplitRow False (rowLine (rowCells numStr colCount row)) =
           [] # map (\<lambda>cell. CHR '' '' # cell @ '' '') (rowCells numStr colCount row) @ [[]]
         \<and> length (mdSplitRow False (rowLine (rowCells numStr colCount row))) = colCount + 2
         \<and> CHR 0x0A \<notin> set (rowLine (rowCells numStr colCount row))"
proof -
  let ?ts = "map (\<lambda>i. cellText numStr (if i < length row then row ! i else CUndefined)) [0..<colCount]"
  have ne: "?ts \<noteq> []" using assms by simp
  have split: "mdSplitRow False (rowLine (rowCells numStr colCount row)) =
           [] # map (\<lambda>cell. CHR '' '' # cell @ '' '') (rowCells numStr colCount row) @ [[]]"
    unfolding rowCells_map rowLine_def using mdSplitRow_cells[OF ne]
    by (simp add: comp_def)
  have nl: "CHR 0x0A \<notin> set (rowLine (rowCells numStr colCount row))"
    unfolding rowLine_def rowCells_map
    using join_no_newline[of "map escapeMarkdown ?ts" "'' | ''"]
    by (simp add: escapeMarkdown_no_newline)
  from split nl show ?thesis by (simp add: rowCells_def)
qed

theorem escaped_row_well_formed_witness:
  "(0::nat) < 2
   \<and> mdSplitRow False (rowLine (rowCells integralNumStr 2
        [CString ''a|b'', CString [CHR ''x'', CHR 0x0A, CHR ''y'']])) =
      [[], [CHR '' '', CHR ''a'', CHR 0x5C, CHR ''|'', CHR ''b'', CHR '' ''], '' x y '', []]"
proof -
  have h: "(0::nat) < 2" by simp
  have c: "rowCells integralNumStr 2 [CString ''a|b'', CString [CHR ''x'', CHR 0x0A, CHR ''y'']]
      = [[CHR ''a'', CHR 0x5C, CHR ''|'', CHR ''b''], ''x y'']"
    by code_simp
  from escaped_row_well_formed[OF h, of integralNumStr
      "[CString ''a|b'', CString [CHR ''x'', CHR 0x0A, CHR ''y'']]"]
  show ?thesis by (simp add: c)
qed

text \<open>
  C8. What holds of every data row does not hold of a header row taken from the data: with
  \<open>hasHeader\<close> the cells of the first row are rendered as they are, without the escaping
  the data rows get. For the block of the rows \<open>[a|b]\<close> and \<open>[x]\<close>, of one column, the header
  line is \<open>| a|b |\<close>, which reads as two cells, above a separator line of one cell; without
  \<open>hasHeader\<close> the same cell is rendered escaped, in a data row. (On every engine that
  accepts the two rows as arguments of a call.)
\<close>

theorem header_cell_pipe_unescaped:
  "formatAsMarkdownTable (2 + argLimit) integralNumStr [[CString ''a|b''], [CString ''x'']] True =
     Inr (''| a|b |'' @ [CHR 0x0A] @ ''| --- |'' @ [CHR 0x0A] @ ''| x |'')
   \<and> colCountOf (2 + argLimit) [[CString ''a|b''], [CString ''x'' :: real cell]] = Inr 1
   \<and> mdSplitRow False ''| a|b |'' = [[], '' a'', ''b '', []]
   \<and> mdSplitRow False ''| --- |'' = [[], '' --- '', []]
   \<and> formatAsMarkdownTable (2 + argLimit) integralNumStr [[CString ''a|b''], [CString ''x'']] False =
     Inr (''| A |'' @ [CHR 0x0A] @ ''| --- |'' @ [CHR 0x0A]
     @ [CHR ''|'', CHR '' '', CHR ''a'', CHR 0x5C, CHR ''|'', CHR ''b'', CHR '' '', CHR ''|'']
     @ [CHR 0x0A] @ ''| x |'')"
proof -
  let ?data = "[[CString ''a|b''], [CString ''x'']] :: real cell list list"
  have w: "\<And>h. formatAsMarkdownTable (2 + argLimit) integralNumStr ?data h =
      formatAsMarkdownTable 2 integralNumStr ?data h"
    by (rule formatAsMarkdownTable_within) simp_all
  have t: "formatAsMarkdownTable 2 integralNumStr ?data True =
     Inr (''| a|b |'' @ [CHR 0x0A] @ ''| --- |'' @ [CHR 0x0A] @ ''| x |'')"
    by code_simp
  have f: "formatAsMarkdownTable 2 integralNumStr ?data False =
     Inr (''| A |'' @ [CHR 0x0A] @ ''| --- |'' @ [CHR 0x0A]
     @ [CHR ''|'', CHR '' '', CHR ''a'', CHR 0x5C, CHR ''|'', CHR ''b'', CHR '' '', CHR ''|'']
     @ [CHR 0x0A] @ ''| x |'')"
    by code_simp
  have c: "colCountOf (2 + argLimit) ?data = Inr 1"
    by (simp add: colCountOf_def)
  have s: "mdSplitRow False ''| a|b |'' = [[], '' a'', ''b '', []]
     \<and> mdSplitRow False ''| --- |'' = [[], '' --- '', []]"
    by code_simp
  show ?thesis unfolding w using t f c s by simp
qed

subsection \<open>The formatting renderer\<close>

lemma cellStep_eq:
  "cellStep numStr times255 lines cell =
     lines @ (if qualifies numStr times255 cell then [bulletLine numStr times255 cell] else [])"
  by (cases "effectiveFormat cell") (simp_all add: cellStep_def qualifies_def bulletLine_def Let_def)

lemma foldl_cellStep:
  "foldl (cellStep numStr times255) lines cells =
     lines @ map (bulletLine numStr times255) (filter (qualifies numStr times255) cells)"
  by (induction cells arbitrary: lines) (simp_all add: cellStep_eq)

lemma rowStep_eq:
  "rowStep numStr times255 lines row =
     lines @ map (bulletLine numStr times255) (filter (qualifies numStr times255) (gridCells [row]))"
  by (cases "rowValues row") (simp_all add: rowStep_def foldl_cellStep gridCells_def)

lemma gridCells_Cons: "gridCells (row # rows) = gridCells [row] @ gridCells rows"
  by (simp add: gridCells_def)

lemma foldl_rowStep:
  "foldl (rowStep numStr times255) lines gridData =
     lines @ map (bulletLine numStr times255) (filter (qualifies numStr times255) (gridCells gridData))"
proof (induction gridData arbitrary: lines)
  case Nil
  show ?case by (simp add: gridCells_def)
next
  case (Cons row rows)
  have "foldl (rowStep numStr times255) lines (row # rows) =
      foldl (rowStep numStr times255) (rowStep numStr times255 lines row) rows" by simp
  also have "\<dots> = rowStep numStr times255 lines row
      @ map (bulletLine numStr times255) (filter (qualifies numStr times255) (gridCells rows))"
    by (rule Cons.IH)
  also have "\<dots> = lines
      @ map (bulletLine numStr times255) (filter (qualifies numStr times255) (gridCells (row # rows)))"
    unfolding rowStep_eq gridCells_Cons[of row rows] by simp
  finally show ?case .
qed

text \<open>
  C9, as the claim states it, fails on a cell whose effective format yields no property:
  a cell that is explicitly not bold has an effective format and gets no bullet line; the
  renderer reports that there is no formatting data.
\<close>

theorem formatCellFormatting_counterexample:
  "effectiveFormat
     \<lparr>effectiveFormat =
        Some (emptyCellFormat\<lparr>textFormat := Some (emptyTextFormat\<lparr>text_format.bold := Some False\<rparr>)\<rparr>),
      formattedValue = Some ''x''\<rparr> \<noteq> None
   \<and> formatCellFormatting integralNumStr (\<lambda>x. x * 255)
       [\<lparr>rowValues = Some
          [\<lparr>effectiveFormat =
              Some (emptyCellFormat\<lparr>textFormat := Some (emptyTextFormat\<lparr>text_format.bold := Some False\<rparr>)\<rparr>),
            formattedValue = Some ''x''\<rparr>]\<rparr>]
       ''A1''
     = ''## Cell Formatting (A1)'' @ [CHR 0x0A] @ [CHR 0x0A] @ ''No formatting data found.''"
  by (simp add: formatCellFormatting_def rowStep_def cellStep_def cellProps_def textProps_def
      emptyCellFormat_def emptyTextFormat_def Let_def)

text \<open>
  C9, amended. The formatting renderer emits, after the heading and an empty line, one
  bullet line for each cell that has an effective format yielding at least one humanized
  property, in the order of the grid, naming the formatted value of the cell (or
  \<open>(empty)\<close>) and its properties joined by commas; it emits nothing for a cell without an
  effective format or whose effective format yields no property; and when no cell
  qualifies it emits the line \<open>No formatting data found.\<close> instead.
\<close>

theorem formatCellFormatting_bullets:
  "formatCellFormatting numStr times255 gridData range' =
     join [CHR 0x0A]
       ([''## Cell Formatting ('' @ range' @ '')'', []]
        @ (if filter (qualifies numStr times255) (gridCells gridData) = []
           then [''No formatting data found.'']
           else map (bulletLine numStr times255) (filter (qualifies numStr times255) (gridCells gridData))))"
  by (simp add: formatCellFormatting_def foldl_rowStep Let_def)

section \<open>Verification of the handlers\<close>

subsection \<open>Resolving a sheet title\<close>

lemma getSpreadsheetInfo_state:
  "getSpreadsheetInfo api sid s = (r, s1) \<Longrightarrow>
     s1 = \<lparr>remote = snd (spreadsheets_get api sid infoFields (remote s)),
           sent = sent s @ [SpreadsheetsGet sid infoFields]\<rparr>"
  by (auto simp: getSpreadsheetInfo_def Let_def split: prod.splits sum.splits)

lemma resolveSheetId_state:
  "resolveSheetId lc api sid t s = (r, s1) \<Longrightarrow>
     s1 = \<lparr>remote = snd (spreadsheets_get api sid infoFields (remote s)),
           sent = sent s @ [SpreadsheetsGet sid infoFields]\<rparr>"
  unfolding resolveSheetId_def
  by (auto split: prod.splits sum.splits option.splits dest: getSpreadsheetInfo_state)

lemma resolveSheetId_no_match:
  assumes "getSpreadsheetInfo api sid s = (Inr info, s1)"
    and "\<forall>sh \<in> set (sheets info). lc (sheetInfo.title sh) \<noteq> lc t"
  shows "resolveSheetId lc api sid t s =
     (Inl (''Sheet '' @ [CHR 0x22] @ t @ [CHR 0x22] @ '' not found. Available sheets: ''
           @ join '', '' (map sheetInfo.title (sheets info))), s1)"
proof -
  have "find (\<lambda>sh. lc (sheetInfo.title sh) = lc t) (sheets info) = None"
    using assms(2) by (simp add: find_None_iff)
  then show ?thesis using assms(1) by (simp add: resolveSheetId_def)
qed

lemma sublist_prepend: "sublist x ys \<Longrightarrow> sublist x (ps @ ys)"
  unfolding sublist_def by (metis append.assoc)

lemma sublist_join: "x \<in> set xs \<Longrightarrow> sublist x (join sep xs)"
proof (induction sep xs rule: join.induct)
  case (1 sep)
  then show ?case by simp
next
  case (2 sep y)
  then show ?case by simp
next
  case (3 sep y z zs)
  show ?case
  proof (cases "x = y")
    case True
    then show ?thesis by (simp add: sublist_append_rightI)
  next
    case False
    with 3 have "sublist x (join sep (z # zs))" by simp
    then have "sublist x ((y @ sep) @ join sep (z # zs))"
      by (rule sublist_prepend)
    then show ?thesis by simp
  qed
qed

subsection \<open>delete-sheet\<close>


lemma demoService_info:
  "getSpreadsheetInfo (demoService a) ''X'' \<lparr>remote = 0, sent = []\<rparr> =
     (Inr \<lparr>spreadsheetInfo.spreadsheetId = ''X'', spreadsheetInfo.title = ''Book'', locale' = [], timeZone = [],
           sheets = [\<lparr>sheetId = 7, sheetInfo.title = ''Data'', rowCount = 0, columnCount = 0\<rparr>]\<rparr>,
      \<lparr>remote = 0, sent = [SpreadsheetsGet ''X'' infoFields]\<rparr>)"
  by (simp add: getSpreadsheetInfo_def demoService_def toSheetInfo_def)

lemma demoService_resolve:
  "resolveSheetId lowerAscii (demoService a) ''X'' ''data'' \<lparr>remote = 0, sent = []\<rparr> =
     (Inr 7, \<lparr>remote = 0, sent = [SpreadsheetsGet ''X'' infoFields]\<rparr>)"
proof -
  have "lowerAscii ''Data'' = lowerAscii ''data''" by code_simp
  then show ?thesis by (simp add: resolveSheetId_def demoService_info)
qed


lemma handler_delete_sheet_resolved:
  assumes "getSheetsClient = Inr client"
    and "resolveSheetId lc client sid t s = (Inr sheet, s1)"
    and "values_get client sid (t @ ''!A:ZZ'') ''FORMATTED_VALUE'' (remote s1) = (rv, w2)"
    and "batchUpdate client sid [DeleteSheet sheet] w2 = (rd, w3)"
  shows "handler_delete_sheet argLimit lc numStr getSheetsClient
           \<lparr>delete_sheet_params.spreadsheetId = sid, delete_sheet_params.sheetTitle = t\<rparr> s =
      (case rd of
         Inl e \<Rightarrow> createErrorResponse (''Failed to delete sheet: ''
                    @ handleApiError e (''Failed to delete sheet '' @ numStr sheet))
       | Inr u \<Rightarrow> createTextResponse
                   (''Sheet '' @ [CHR 0x22] @ t @ [CHR 0x22] @ '' (ID: '' @ numStr sheet
                    @ '') deleted successfully.''
                    @ (case rv of Inl e \<Rightarrow> []
                       | Inr None \<Rightarrow> []
                       | Inr (Some vs) \<Rightarrow>
                           if vs \<noteq> []
                           then (case formatAsMarkdownTable argLimit numStr vs False of
                                   Inl e \<Rightarrow> [] | Inr table \<Rightarrow> backupHeading @ table)
                           else [])),
       \<lparr>remote = w3, sent = sent s1 @ [ValuesGet sid (t @ ''!A:ZZ'') ''FORMATTED_VALUE'',
                              BatchUpdate sid [DeleteSheet sheet]]\<rparr>)"
proof -
  let ?params = "\<lparr>delete_sheet_params.spreadsheetId = sid, delete_sheet_params.sheetTitle = t\<rparr>"
  let ?s2 = "\<lparr>remote = w2, sent = sent s1 @ [ValuesGet sid (t @ ''!A:ZZ'') ''FORMATTED_VALUE'']\<rparr>"
  let ?backup = "case rv of Inl e \<Rightarrow> []
      | Inr None \<Rightarrow> []
      | Inr (Some vs) \<Rightarrow>
          if vs \<noteq> []
          then (case formatAsMarkdownTable argLimit numStr vs False of
                  Inl e \<Rightarrow> [] | Inr table \<Rightarrow> backupHeading @ table)
          else []"
  have backup: "readBackup argLimit numStr client ?params s1 = (?backup, ?s2)"
    using assms(3) by (simp add: readBackup_def getValues_def split: sum.splits option.splits)
  have del: "deleteSheet numStr client sid sheet ?s2 =
      (case rd of Inl e \<Rightarrow> Inl (handleApiError e (''Failed to delete sheet '' @ numStr sheet))
         | Inr u \<Rightarrow> Inr (),
       \<lparr>remote = w3, sent = sent s1 @ [ValuesGet sid (t @ ''!A:ZZ'') ''FORMATTED_VALUE'',
                              BatchUpdate sid [DeleteSheet sheet]]\<rparr>)"
    using assms(4) by (simp add: deleteSheet_def split: sum.splits)
  show ?thesis
    using assms(1,2) backup del
    by (simp add: handler_delete_sheet_def split: sum.splits)
qed

text \<open>
  The snapshot of delete-sheet on an engine that accepts the rows read. When the client is
  available and the title resolves to a sheet, delete-sheet reads the values of the range
  \<open>title!A:ZZ\<close> and then, whatever the read gave, sends the request that deletes the sheet:
  the requests sent after the resolution are that read and that deletion, and nothing
  else. When the deletion succeeds: if the read failed, the response is the success text
  alone, with no backup section; if the read gave at least one row and no more rows than
  the engine accepts as the arguments of one call, the response is the success text
  followed by the backup heading and the table of the values read; if the read gave more
  rows than that, the response is the success text alone.
\<close>

theorem delete_sheet_backup_within_limit:
  assumes "getSheetsClient = Inr client"
    and "resolveSheetId lc client sid t s = (Inr sheet, s1)"
    and "values_get client sid (t @ ''!A:ZZ'') ''FORMATTED_VALUE'' (remote s1) = (rv, w2)"
    and "batchUpdate client sid [DeleteSheet sheet] w2 = (rd, w3)"
  shows "snd (handler_delete_sheet argLimit lc numStr getSheetsClient
           \<lparr>delete_sheet_params.spreadsheetId = sid, delete_sheet_params.sheetTitle = t\<rparr> s) =
           \<lparr>remote = w3,
            sent = sent s1 @ [ValuesGet sid (t @ ''!A:ZZ'') ''FORMATTED_VALUE'',
                              BatchUpdate sid [DeleteSheet sheet]]\<rparr>
         \<and> (rd = Inr () \<longrightarrow>
              (\<forall>e. rv = Inl e \<longrightarrow>
                 fst (handler_delete_sheet argLimit lc numStr getSheetsClient
                   \<lparr>delete_sheet_params.spreadsheetId = sid, delete_sheet_params.sheetTitle = t\<rparr> s) =
                 createTextResponse
                   (''Sheet '' @ [CHR 0x22] @ t @ [CHR 0x22] @ '' (ID: '' @ numStr sheet
                    @ '') deleted successfully.''))
              \<and> (\<forall>vs. rv = Inr (Some vs) \<longrightarrow> vs \<noteq> [] \<longrightarrow> length vs \<le> argLimit \<longrightarrow>
                 (\<exists>table. formatAsMarkdownTable argLimit numStr vs False = Inr table
                    \<and> fst (handler_delete_sheet argLimit lc numStr getSheetsClient
                         \<lparr>delete_sheet_params.spreadsheetId = sid, delete_sheet_params.sheetTitle = t\<rparr> s) =
                       createTextResponse
                         (''Sheet '' @ [CHR 0x22] @ t @ [CHR 0x22] @ '' (ID: '' @ numStr sheet
                          @ '') deleted successfully.'' @ backupHeading @ table)))
              \<and> (\<forall>vs. rv = Inr (Some vs) \<longrightarrow> argLimit < length vs \<longrightarrow>
                 fst (handler_delete_sheet argLimit lc numStr getSheetsClient
                   \<lparr>delete_sheet_params.spreadsheetId = sid, delete_sheet_params.sheetTitle = t\<rparr> s) =
                 createTextResponse
                   (''Sheet '' @ [CHR 0x22] @ t @ [CHR 0x22] @ '' (ID: '' @ numStr sheet
                    @ '') deleted successfully.'')))"
  unfolding handler_delete_sheet_resolved[OF assms]
  by (auto simp: formatAsMarkdownTable_beyond formatAsMarkdownTable_no_error split: sum.splits)

theorem delete_sheet_backup_within_limit_witness:
  "handler_delete_sheet 100000 lowerAscii integralNumStr
       (Inr (demoService (Inl (Coded (CodeNumber 400) None))))
       \<lparr>delete_sheet_params.spreadsheetId = ''X'', delete_sheet_params.sheetTitle = ''data''\<rparr>
       \<lparr>remote = 0, sent = []\<rparr> =
     (createTextResponse (''Sheet '' @ [CHR 0x22] @ ''data'' @ [CHR 0x22]
        @ '' (ID: 7) deleted successfully.''),
      \<lparr>remote = 1,
       sent = [SpreadsheetsGet ''X'' infoFields, ValuesGet ''X'' ''data!A:ZZ'' ''FORMATTED_VALUE'',
               BatchUpdate ''X'' [DeleteSheet 7]]\<rparr>)
   \<and> handler_delete_sheet 100000 lowerAscii integralNumStr
       (Inr (demoService (Inr (Some [[CString ''v'']]))))
       \<lparr>delete_sheet_params.spreadsheetId = ''X'', delete_sheet_params.sheetTitle = ''data''\<rparr>
       \<lparr>remote = 0, sent = []\<rparr> =
     (createTextResponse (''Sheet '' @ [CHR 0x22] @ ''data'' @ [CHR 0x22]
        @ '' (ID: 7) deleted successfully.'' @ [CHR 0x0A, CHR 0x0A]
        @ ''## Deleted Sheet Data (backup)'' @ [CHR 0x0A, CHR 0x0A]
        @ ''| A |'' @ [CHR 0x0A] @ ''| --- |'' @ [CHR 0x0A] @ ''| v |''),
      \<lparr>remote = 1,
       sent = [SpreadsheetsGet ''X'' infoFields, ValuesGet ''X'' ''data!A:ZZ'' ''FORMATTED_VALUE'',
               BatchUpdate ''X'' [DeleteSheet 7]]\<rparr>)"
proof -
  let ?failing = "demoService (Inl (Coded (CodeNumber 400) None))"
  let ?answering = "demoService (Inr (Some [[CString ''v'']]))"
  have f1: "(Inr ?failing :: string + nat sheets_api) = Inr ?failing" by simp
  have f3: "values_get ?failing ''X'' (''data'' @ ''!A:ZZ'') ''FORMATTED_VALUE''
      (remote \<lparr>remote = 0, sent = [SpreadsheetsGet ''X'' infoFields]\<rparr>)
      = (Inl (Coded (CodeNumber 400) None), 0)"
    by (simp add: demoService_def)
  have f4: "batchUpdate ?failing ''X'' [DeleteSheet 7] 0 = (Inr (), 1)"
    by (simp add: demoService_def)
  have a1: "(Inr ?answering :: string + nat sheets_api) = Inr ?answering" by simp
  have a3: "values_get ?answering ''X'' (''data'' @ ''!A:ZZ'') ''FORMATTED_VALUE''
      (remote \<lparr>remote = 0, sent = [SpreadsheetsGet ''X'' infoFields]\<rparr>)
      = (Inr (Some [[CString ''v'']]), 0)"
    by (simp add: demoService_def)
  have a4: "batchUpdate ?answering ''X'' [DeleteSheet 7] 0 = (Inr (), 1)"
    by (simp add: demoService_def)
  have n: "integralNumStr 7 = ''7''" by code_simp
  have t1: "formatAsMarkdownTable 1 integralNumStr [[CString ''v'']] False =
      Inr (''| A |'' @ [CHR 0x0A] @ ''| --- |'' @ [CHR 0x0A] @ ''| v |'')"
    by code_simp
  have t: "formatAsMarkdownTable 100000 integralNumStr [[CString ''v'']] False =
      Inr (''| A |'' @ [CHR 0x0A] @ ''| --- |'' @ [CHR 0x0A] @ ''| v |'')"
    unfolding t1[symmetric] by (rule formatAsMarkdownTable_within) simp_all
  from delete_sheet_backup_within_limit[OF f1 demoService_resolve f3 f4, of 100000 integralNumStr]
    delete_sheet_backup_within_limit[OF a1 demoService_resolve a3 a4, of 100000 integralNumStr]
  show ?thesis by (simp add: n t prod_eq_iff backupHeading_def)
qed

text \<open>
  C7 fails on a long sheet. The snapshot is built inside the same \<open>try\<close> as the read, and
  the table renderer passes one argument for each row to \<open>Math.max\<close>, which raises a
  \<open>RangeError\<close> beyond the number of arguments the engine accepts; the handler catches it
  as it catches a failed read. So on a sheet of one row more than the engine accepts, where
  the read of \<open>data!A:ZZ\<close> succeeds and gives all the rows, delete-sheet sends the request
  that deletes the sheet and answers with the success text alone: the sheet is deleted and
  the response has no backup section. The renderer itself returns no table for these rows,
  and the same call on an engine that accepts one row more does carry the backup section.
\<close>

theorem delete_sheet_long_sheet_no_backup:
  "handler_delete_sheet argLimit lowerAscii integralNumStr
       (Inr (demoService (Inr (Some (replicate (Suc argLimit) [CString ''v''])))))
       \<lparr>delete_sheet_params.spreadsheetId = ''X'', delete_sheet_params.sheetTitle = ''data''\<rparr>
       \<lparr>remote = 0, sent = []\<rparr> =
     (createTextResponse (''Sheet '' @ [CHR 0x22] @ ''data'' @ [CHR 0x22]
        @ '' (ID: 7) deleted successfully.''),
      \<lparr>remote = 1,
       sent = [SpreadsheetsGet ''X'' infoFields, ValuesGet ''X'' ''data!A:ZZ'' ''FORMATTED_VALUE'',
               BatchUpdate ''X'' [DeleteSheet 7]]\<rparr>)
   \<and> getValues (demoService (Inr (Some (replicate (Suc argLimit) [CString ''v''])))) ''X''
       ''data!A:ZZ'' \<lparr>remote = 0, sent = [SpreadsheetsGet ''X'' infoFields]\<rparr> =
     (Inr (replicate (Suc argLimit) [CString ''v'']),
      \<lparr>remote = 0,
       sent = [SpreadsheetsGet ''X'' infoFields, ValuesGet ''X'' ''data!A:ZZ'' ''FORMATTED_VALUE'']\<rparr>)
   \<and> formatAsMarkdownTable argLimit integralNumStr (replicate (Suc argLimit) [CString ''v'']) False
       = Inl RangeError
   \<and> (\<exists>table.
         formatAsMarkdownTable (Suc argLimit) integralNumStr
           (replicate (Suc argLimit) [CString ''v'']) False = Inr table
         \<and> handler_delete_sheet (Suc argLimit) lowerAscii integralNumStr
             (Inr (demoService (Inr (Some (replicate (Suc argLimit) [CString ''v''])))))
             \<lparr>delete_sheet_params.spreadsheetId = ''X'', delete_sheet_params.sheetTitle = ''data''\<rparr>
             \<lparr>remote = 0, sent = []\<rparr> =
           (createTextResponse (''Sheet '' @ [CHR 0x22] @ ''data'' @ [CHR 0x22]
              @ '' (ID: 7) deleted successfully.'' @ backupHeading @ table),
            \<lparr>remote = 1,
             sent = [SpreadsheetsGet ''X'' infoFields, ValuesGet ''X'' ''data!A:ZZ'' ''FORMATTED_VALUE'',
                     BatchUpdate ''X'' [DeleteSheet 7]]\<rparr>))"
proof -
  let ?rows = "replicate (Suc argLimit) [CString ''v''] :: real cell list list"
  let ?client = "demoService (Inr (Some ?rows))"
  let ?params = "\<lparr>delete_sheet_params.spreadsheetId = ''X'', delete_sheet_params.sheetTitle = ''data''\<rparr>"
  have c: "(Inr ?client :: string + nat sheets_api) = Inr ?client" by simp
  have r: "values_get ?client ''X'' (''data'' @ ''!A:ZZ'') ''FORMATTED_VALUE''
      (remote \<lparr>remote = 0, sent = [SpreadsheetsGet ''X'' infoFields]\<rparr>) = (Inr (Some ?rows), 0)"
    by (simp add: demoService_def)
  have d: "batchUpdate ?client ''X'' [DeleteSheet 7] 0 = (Inr (), 1)"
    by (simp add: demoService_def)
  have n: "integralNumStr 7 = ''7''" by code_simp
  have beyond: "formatAsMarkdownTable argLimit integralNumStr ?rows False = Inl RangeError"
    by (rule formatAsMarkdownTable_beyond) simp
  obtain table where table:
    "formatAsMarkdownTable (Suc argLimit) integralNumStr ?rows False = Inr table"
    using formatAsMarkdownTable_returns[of ?rows "Suc argLimit" integralNumStr False] by auto
  have g: "getValues ?client ''X'' ''data!A:ZZ'' \<lparr>remote = 0, sent = [SpreadsheetsGet ''X'' infoFields]\<rparr> =
     (Inr ?rows,
      \<lparr>remote = 0,
       sent = [SpreadsheetsGet ''X'' infoFields, ValuesGet ''X'' ''data!A:ZZ'' ''FORMATTED_VALUE'']\<rparr>)"
    by (simp add: getValues_def demoService_def)
  have short: "handler_delete_sheet argLimit lowerAscii integralNumStr (Inr ?client) ?params
       \<lparr>remote = 0, sent = []\<rparr> =
     (createTextResponse (''Sheet '' @ [CHR 0x22] @ ''data'' @ [CHR 0x22]
        @ '' (ID: 7) deleted successfully.''),
      \<lparr>remote = 1,
       sent = [SpreadsheetsGet ''X'' infoFields, ValuesGet ''X'' ''data!A:ZZ'' ''FORMATTED_VALUE'',
               BatchUpdate ''X'' [DeleteSheet 7]]\<rparr>)"
    unfolding handler_delete_sheet_resolved[OF c demoService_resolve r d]
    by (simp add: n beyond del: replicate.simps)
  have long: "handler_delete_sheet (Suc argLimit) lowerAscii integralNumStr (Inr ?client) ?params
       \<lparr>remote = 0, sent = []\<rparr> =
     (createTextResponse (''Sheet '' @ [CHR 0x22] @ ''data'' @ [CHR 0x22]
        @ '' (ID: 7) deleted successfully.'' @ backupHeading @ table),
      \<lparr>remote = 1,
       sent = [SpreadsheetsGet ''X'' infoFields, ValuesGet ''X'' ''data!A:ZZ'' ''FORMATTED_VALUE'',
               BatchUpdate ''X'' [DeleteSheet 7]]\<rparr>)"
    unfolding handler_delete_sheet_resolved[OF c demoService_resolve r d]
    by (simp add: n table del: replicate.simps)
  from table long have ex: "\<exists>table.
         formatAsMarkdownTable (Suc argLimit) integralNumStr
           (replicate (Suc argLimit) [CString ''v'']) False = Inr table
         \<and> handler_delete_sheet (Suc argLimit) lowerAscii integralNumStr
             (Inr (demoService (Inr (Some (replicate (Suc argLimit) [CString ''v''])))))
             \<lparr>delete_sheet_params.spreadsheetId = ''X'', delete_sheet_params.sheetTitle = ''data''\<rparr>
             \<lparr>remote = 0, sent = []\<rparr> =
           (createTextResponse (''Sheet '' @ [CHR 0x22] @ ''data'' @ [CHR 0x22]
              @ '' (ID: 7) deleted successfully.'' @ backupHeading @ table),
            \<lparr>remote = 1,
             sent = [SpreadsheetsGet ''X'' infoFields, ValuesGet ''X'' ''data!A:ZZ'' ''FORMATTED_VALUE'',
                     BatchUpdate ''X'' [DeleteSheet 7]]\<rparr>)"
    by (intro exI[of _ table] conjI)
  show ?thesis by (rule conjI[OF short conjI[OF g conjI[OF beyond ex]]])
qed

subsection \<open>update-formatting\<close>

lemma buildTextFormat_eq:
  "buildTextFormat f fieldParts =
     (\<lparr>text_format.bold = format_params.bold f, text_format.italic = format_params.italic f,
       text_format.strikethrough = format_params.strikethrough f,
       text_format.fontSize = format_params.fontSize f,
       text_format.fontFamily = format_params.fontFamily f,
       text_format.foregroundColor = format_params.foregroundColor f,
       foregroundColorStyle = None\<rparr>,
      fieldParts @ map attributePath
        (filter (provided f) [Bold, Italic, Strikethrough, FontSize, FontFamily, ForegroundColor]))"
  by (simp add: buildTextFormat_def assignIf_def emptyTextFormat_def)

lemma providedAttributes_split:
  "map attributePath (providedAttributes f) =
     map attributePath
       (filter (provided f) [Bold, Italic, Strikethrough, FontSize, FontFamily, ForegroundColor])
     @ map attributePath (filter (provided f) [BackgroundColor, HorizontalAlignment, NumberFormat])"
  unfolding providedAttributes_def by (simp only: map_append[symmetric] filter_append[symmetric] append.simps)

lemma text_none:
  "(filter (provided f) [Bold, Italic, Strikethrough, FontSize, FontFamily, ForegroundColor] = []) =
   (\<not> (format_params.bold f \<noteq> None \<or> format_params.italic f \<noteq> None
                \<or> format_params.strikethrough f \<noteq> None \<or> format_params.fontSize f \<noteq> None
                \<or> format_params.fontFamily f \<noteq> None \<or> format_params.foregroundColor f \<noteq> None))"
  by (auto simp: filter_empty_conv)

lemma buildCellFormat_snd:
  "snd (buildCellFormat f) = map attributePath (providedAttributes f)"
proof (cases "filter (provided f) [Bold, Italic, Strikethrough, FontSize, FontFamily, ForegroundColor] = []")
  case True
  then show ?thesis
    unfolding providedAttributes_split buildCellFormat_def Let_def
    using True[unfolded text_none]
    by (simp add: assignIf_def)
next
  case False
  then show ?thesis
    unfolding providedAttributes_split buildCellFormat_def Let_def buildTextFormat_eq
    using False[unfolded text_none]
    by (simp add: assignIf_def)
qed

lemma buildCellFormat_fst:
  "fst (buildCellFormat f) =
     \<lparr>textFormat =
        (if format_params.bold f \<noteq> None \<or> format_params.italic f \<noteq> None
            \<or> format_params.strikethrough f \<noteq> None \<or> format_params.fontSize f \<noteq> None
            \<or> format_params.fontFamily f \<noteq> None \<or> format_params.foregroundColor f \<noteq> None
         then Some \<lparr>text_format.bold = format_params.bold f,
                     text_format.italic = format_params.italic f,
                     text_format.strikethrough = format_params.strikethrough f,
                     text_format.fontSize = format_params.fontSize f,
                     text_format.fontFamily = format_params.fontFamily f,
                     text_format.foregroundColor = format_params.foregroundColor f,
                     foregroundColorStyle = None\<rparr>
         else None),
      cell_format.backgroundColor = format_params.backgroundColor f,
      cell_format.numberFormat = format_params.numberFormat f,
      cell_format.horizontalAlignment = format_params.horizontalAlignment f\<rparr>"
  unfolding buildCellFormat_def Let_def buildTextFormat_eq
  by (simp add: assignIf_def emptyCellFormat_def)

lemma handler_update_formatting_resolved:
  assumes "getSheetsClient = Inr client"
    and "resolveSheetId lc client (spreadsheetId params) (sheetTitle params) s = (Inr sheet, s1)"
  shows "handler_update_formatting lc numStr getSheetsClient params s =
     (if providedAttributes (format params) = []
      then (createErrorResponse ''No formatting properties specified.'', s1)
      else
        (case updateFormatting client (spreadsheetId params) sheet
                (startRowIndex params) (endRowIndex params)
                (startColumnIndex params) (endColumnIndex params)
                (fst (buildCellFormat (format params)))
                (join '','' (map attributePath (providedAttributes (format params)))) s1 of
           (Inl e, s2) \<Rightarrow> (createErrorResponse (''Failed to update formatting: '' @ e), s2)
         | (Inr u, s2) \<Rightarrow>
             (createTextResponse
                (''Formatting updated for '' @ sheetTitle params @ '' ''
                 @ ''[rows '' @ numStr (startRowIndex params) @ ''-''
                 @ numStr (endRowIndex params) @ '', cols ''
                 @ numStr (startColumnIndex params) @ ''-''
                 @ numStr (endColumnIndex params) @ '']'' @ [CHR 0x0A, CHR 0x0A]
                 @ ''Applied: '' @ join '', '' (map attributePath (providedAttributes (format params)))),
              s2)))"
proof -
  have b: "buildCellFormat (format params) =
      (fst (buildCellFormat (format params)),
       map attributePath (providedAttributes (format params)))"
    using buildCellFormat_snd[of "format params"] by (simp add: prod_eq_iff)
  show ?thesis
    unfolding handler_update_formatting_def
    by (subst b) (simp add: assms)
qed

lemma updateFormatting_sent:
  "sent (snd (updateFormatting api sid sheet sr er sc ec fmt fields' s)) =
     sent s @ [BatchUpdate sid [RepeatCell (GridRange sheet sr er sc ec) fmt
                                  (''userEnteredFormat('' @ fields' @ '')'')]]"
  by (simp add: updateFormatting_def Let_def split: prod.splits sum.splits)

text \<open>
  C4. When the client is available, the title resolves to a sheet and the format object
  provides at least one attribute, update-formatting sends, after the resolution, exactly
  one request: a batch update repeating over the given range a cell format that holds the
  provided attributes with their values and nothing else, with the field mask
  \<open>userEnteredFormat(...)\<close> listing the paths of exactly the provided attributes. For the
  format object that provides only \<open>bold: true\<close>, the mask names \<open>textFormat.bold\<close> alone
  and the cell format holds only a text format whose only field is \<open>bold = true\<close>.
\<close>

theorem update_formatting_field_mask:
  assumes "getSheetsClient = Inr client"
    and "resolveSheetId lc client (spreadsheetId params) (sheetTitle params) s = (Inr sheet, s1)"
    and "providedAttributes (format params) \<noteq> []"
  shows "sent (snd (handler_update_formatting lc numStr getSheetsClient params s)) =
           sent s1 @
           [BatchUpdate (spreadsheetId params)
              [RepeatCell
                 (GridRange sheet (startRowIndex params) (endRowIndex params)
                    (startColumnIndex params) (endColumnIndex params))
                 (fst (buildCellFormat (format params)))
                 (''userEnteredFormat(''
                  @ join '','' (map attributePath (providedAttributes (format params))) @ '')'')]]
         \<and> fst (buildCellFormat (format params)) =
             \<lparr>textFormat =
                (if provided (format params) Bold \<or> provided (format params) Italic
                    \<or> provided (format params) Strikethrough \<or> provided (format params) FontSize
                    \<or> provided (format params) FontFamily
                    \<or> provided (format params) ForegroundColor
                 then Some \<lparr>text_format.bold = format_params.bold (format params),
                             text_format.italic = format_params.italic (format params),
                             text_format.strikethrough = format_params.strikethrough (format params),
                             text_format.fontSize = format_params.fontSize (format params),
                             text_format.fontFamily = format_params.fontFamily (format params),
                             text_format.foregroundColor = format_params.foregroundColor (format params),
                             foregroundColorStyle = None\<rparr>
                 else None),
              cell_format.backgroundColor = format_params.backgroundColor (format params),
              cell_format.numberFormat = format_params.numberFormat (format params),
              cell_format.horizontalAlignment = format_params.horizontalAlignment (format params)\<rparr>
         \<and> buildCellFormat (noFormat\<lparr>format_params.bold := Some True\<rparr>) =
             (emptyCellFormat\<lparr>textFormat := Some (emptyTextFormat\<lparr>text_format.bold := Some True\<rparr>)\<rparr>,
              [''textFormat.bold''])
         \<and> join '','' (map attributePath (providedAttributes (noFormat\<lparr>format_params.bold := Some True\<rparr>)))
             = ''textFormat.bold''"
proof -
  have sent: "sent (snd (handler_update_formatting lc numStr getSheetsClient params s)) =
           sent s1 @
           [BatchUpdate (spreadsheetId params)
              [RepeatCell
                 (GridRange sheet (startRowIndex params) (endRowIndex params)
                    (startColumnIndex params) (endColumnIndex params))
                 (fst (buildCellFormat (format params)))
                 (''userEnteredFormat(''
                  @ join '','' (map attributePath (providedAttributes (format params))) @ '')'')]]"
  proof -
    obtain r s2 where u: "updateFormatting client (spreadsheetId params) sheet
        (startRowIndex params) (endRowIndex params) (startColumnIndex params)
        (endColumnIndex params) (fst (buildCellFormat (format params)))
        (join '','' (map attributePath (providedAttributes (format params)))) s1 = (r, s2)"
      by (meson surj_pair)
    have "sent s2 = sent s1 @
           [BatchUpdate (spreadsheetId params)
              [RepeatCell
                 (GridRange sheet (startRowIndex params) (endRowIndex params)
                    (startColumnIndex params) (endColumnIndex params))
                 (fst (buildCellFormat (format params)))
                 (''userEnteredFormat(''
                  @ join '','' (map attributePath (providedAttributes (format params))) @ '')'')]]"
      using updateFormatting_sent[of client "spreadsheetId params" sheet
        "startRowIndex params" "endRowIndex params" "startColumnIndex params"
        "endColumnIndex params" "fst (buildCellFormat (format params))"
        "join '','' (map attributePath (providedAttributes (format params)))" s1]
      unfolding u by simp
    moreover have "snd (handler_update_formatting lc numStr getSheetsClient params s) = s2"
      unfolding handler_update_formatting_resolved[OF assms(1,2)]
      using assms(3) by (cases r) (simp_all add: u)
    ultimately show ?thesis by simp
  qed
  have bold: "buildCellFormat (noFormat\<lparr>format_params.bold := Some True\<rparr>) =
             (emptyCellFormat\<lparr>textFormat := Some (emptyTextFormat\<lparr>text_format.bold := Some True\<rparr>)\<rparr>,
              [''textFormat.bold''])"
    by (simp add: buildCellFormat_def buildTextFormat_def assignIf_def noFormat_def
        emptyCellFormat_def emptyTextFormat_def)
  have mask: "join '','' (map attributePath (providedAttributes (noFormat\<lparr>format_params.bold := Some True\<rparr>)))
             = ''textFormat.bold''"
    by (simp add: providedAttributes_def noFormat_def)
  show ?thesis
    using sent bold mask by (simp add: buildCellFormat_fst)
qed

theorem update_formatting_field_mask_witness:
  "sent (snd (handler_update_formatting lowerAscii integralNumStr (Inr (demoService (Inr None)))
       \<lparr>update_formatting_params.spreadsheetId = ''X'', update_formatting_params.sheetTitle = ''data'',
        startRowIndex = 0, endRowIndex = 1, startColumnIndex = 0, endColumnIndex = 2,
        format = noFormat\<lparr>format_params.bold := Some True\<rparr>\<rparr>
       \<lparr>remote = 0, sent = []\<rparr>)) =
     [SpreadsheetsGet ''X'' infoFields,
      BatchUpdate ''X''
        [RepeatCell (GridRange 7 0 1 0 2)
           (emptyCellFormat\<lparr>textFormat := Some (emptyTextFormat\<lparr>text_format.bold := Some True\<rparr>)\<rparr>)
           ''userEnteredFormat(textFormat.bold)'']]"
proof -
  let ?client = "demoService (Inr None)"
  let ?params = "\<lparr>update_formatting_params.spreadsheetId = ''X'',
        update_formatting_params.sheetTitle = ''data'',
        startRowIndex = 0, endRowIndex = 1, startColumnIndex = 0, endColumnIndex = 2,
        format = noFormat\<lparr>format_params.bold := Some True\<rparr>\<rparr>"
  have h1: "(Inr ?client :: string + nat sheets_api) = Inr ?client" by simp
  have h2: "resolveSheetId lowerAscii ?client (spreadsheetId ?params) (sheetTitle ?params)
      \<lparr>remote = 0, sent = []\<rparr> = (Inr 7, \<lparr>remote = 0, sent = [SpreadsheetsGet ''X'' infoFields]\<rparr>)"
    by (simp add: demoService_resolve)
  have h3: "providedAttributes (format ?params) \<noteq> []"
    by (simp add: providedAttributes_def noFormat_def)
  from update_formatting_field_mask[OF h1 h2 h3, of integralNumStr]
  show ?thesis by simp
qed

text \<open>
  C10, as the claim states it, fails: the handler resolves the sheet title before it looks
  at the format object. A call with an empty format object on an existing sheet has
  sent one request, the read of the metadata, when it answers that no formatting
  properties were specified; and a call with an empty format object on a title that no
  sheet has is answered with the not-found error of the resolution.
\<close>

theorem update_formatting_empty_counterexample:
  "providedAttributes noFormat = []
   \<and> handler_update_formatting lowerAscii integralNumStr (Inr (demoService (Inr None)))
       \<lparr>update_formatting_params.spreadsheetId = ''X'', update_formatting_params.sheetTitle = ''data'',
        startRowIndex = 0, endRowIndex = 1, startColumnIndex = 0, endColumnIndex = 2,
        format = noFormat\<rparr>
       \<lparr>remote = 0, sent = []\<rparr> =
     (createErrorResponse ''No formatting properties specified.'',
      \<lparr>remote = 0, sent = [SpreadsheetsGet ''X'' infoFields]\<rparr>)
   \<and> [SpreadsheetsGet ''X'' infoFields] \<noteq> []
   \<and> handler_update_formatting lowerAscii integralNumStr (Inr (demoService (Inr None)))
       \<lparr>update_formatting_params.spreadsheetId = ''X'', update_formatting_params.sheetTitle = ''Missing'',
        startRowIndex = 0, endRowIndex = 1, startColumnIndex = 0, endColumnIndex = 2,
        format = noFormat\<rparr>
       \<lparr>remote = 0, sent = []\<rparr> =
     (createErrorResponse
        (''Failed to update formatting: Sheet '' @ [CHR 0x22] @ ''Missing'' @ [CHR 0x22]
         @ '' not found. Available sheets: Data''),
      \<lparr>remote = 0, sent = [SpreadsheetsGet ''X'' infoFields]\<rparr>)"
proof -
  have ne: "lowerAscii ''Data'' \<noteq> lowerAscii ''Missing''" by code_simp
  have h3: "\<forall>sh \<in> set (sheets \<lparr>spreadsheetInfo.spreadsheetId = ''X'', spreadsheetInfo.title = ''Book'',
        locale' = [], timeZone = [],
        sheets = [\<lparr>sheetId = 7, sheetInfo.title = ''Data'', rowCount = 0, columnCount = 0\<rparr>]\<rparr>).
      lowerAscii (sheetInfo.title sh) \<noteq> lowerAscii ''Missing''"
    using ne by simp
  have missing: "handler_update_formatting lowerAscii integralNumStr (Inr (demoService (Inr None)))
       \<lparr>update_formatting_params.spreadsheetId = ''X'', update_formatting_params.sheetTitle = ''Missing'',
        startRowIndex = 0, endRowIndex = 1, startColumnIndex = 0, endColumnIndex = 2,
        format = noFormat\<rparr>
       \<lparr>remote = 0, sent = []\<rparr> =
     (createErrorResponse
        (''Failed to update formatting: Sheet '' @ [CHR 0x22] @ ''Missing'' @ [CHR 0x22]
         @ '' not found. Available sheets: Data''),
      \<lparr>remote = 0, sent = [SpreadsheetsGet ''X'' infoFields]\<rparr>)"
    using resolveSheetId_no_match[OF demoService_info h3, of "Inr None"]
    by (simp add: handler_update_formatting_def)
  have e: "providedAttributes noFormat = []"
    by (simp add: providedAttributes_def noFormat_def)
  have h1: "(Inr (demoService (Inr None)) :: string + nat sheets_api) = Inr (demoService (Inr None))"
    by simp
  show ?thesis
    using e handler_update_formatting_resolved[OF h1, of lowerAscii
        "\<lparr>update_formatting_params.spreadsheetId = ''X'',
          update_formatting_params.sheetTitle = ''data'',
          startRowIndex = 0, endRowIndex = 1, startColumnIndex = 0, endColumnIndex = 2,
          format = noFormat\<rparr>" "\<lparr>remote = 0, sent = []\<rparr>" 7
        "\<lparr>remote = 0, sent = [SpreadsheetsGet ''X'' infoFields]\<rparr>" integralNumStr]
      missing
    by (simp add: demoService_resolve)
qed

text \<open>
  C10, amended. When the client is available, the title resolves to a sheet and the format
  object provides no attribute, update-formatting answers with the error response
  \<open>No formatting properties specified.\<close>; the only request it has sent is the read of the
  metadata that resolves the title, so no update is requested and the remote service is in
  the state that read left.
\<close>

theorem update_formatting_empty:
  assumes "getSheetsClient = Inr client"
    and "resolveSheetId lc client (spreadsheetId params) (sheetTitle params) s = (Inr sheet, s1)"
    and "providedAttributes (format params) = []"
  shows "handler_update_formatting lc numStr getSheetsClient params s =
           (createErrorResponse ''No formatting properties specified.'', s1)
         \<and> isError (fst (handler_update_formatting lc numStr getSheetsClient params s)) = Some True
         \<and> sent s1 = sent s @ [SpreadsheetsGet (spreadsheetId params) infoFields]
         \<and> remote s1 = snd (spreadsheets_get client (spreadsheetId params) infoFields (remote s))"
proof -
  have h: "handler_update_formatting lc numStr getSheetsClient params s =
           (createErrorResponse ''No formatting properties specified.'', s1)"
    using handler_update_formatting_resolved[OF assms(1,2)] assms(3) by simp
  have st: "s1 = \<lparr>remote = snd (spreadsheets_get client (spreadsheetId params) infoFields (remote s)),
           sent = sent s @ [SpreadsheetsGet (spreadsheetId params) infoFields]\<rparr>"
    using resolveSheetId_state[OF assms(2)] .
  have "sent s1 = sent s @ [SpreadsheetsGet (spreadsheetId params) infoFields]"
    "remote s1 = snd (spreadsheets_get client (spreadsheetId params) infoFields (remote s))"
    using st by simp_all
  with h show ?thesis by (simp add: createErrorResponse_def)
qed

theorem update_formatting_empty_witness:
  "providedAttributes noFormat = []
   \<and> fst (handler_update_formatting lowerAscii integralNumStr (Inr (demoService (Inr None)))
       \<lparr>update_formatting_params.spreadsheetId = ''X'', update_formatting_params.sheetTitle = ''data'',
        startRowIndex = 0, endRowIndex = 1, startColumnIndex = 0, endColumnIndex = 2,
        format = noFormat\<rparr>
       \<lparr>remote = 0, sent = []\<rparr>) =
     createErrorResponse ''No formatting properties specified.''"
proof -
  let ?params = "\<lparr>update_formatting_params.spreadsheetId = ''X'',
        update_formatting_params.sheetTitle = ''data'',
        startRowIndex = 0, endRowIndex = 1, startColumnIndex = 0, endColumnIndex = 2,
        format = noFormat\<rparr>"
  have h1: "(Inr (demoService (Inr None)) :: string + nat sheets_api) = Inr (demoService (Inr None))"
    by simp
  have h2: "resolveSheetId lowerAscii (demoService (Inr None)) (spreadsheetId ?params)
      (sheetTitle ?params) \<lparr>remote = 0, sent = []\<rparr>
      = (Inr 7, \<lparr>remote = 0, sent = [SpreadsheetsGet ''X'' infoFields]\<rparr>)"
    by (simp add: demoService_resolve)
  have h3: "providedAttributes (format ?params) = []"
    by (simp add: providedAttributes_def noFormat_def)
  from update_formatting_empty[OF h1 h2 h3, of integralNumStr] h3
  show ?thesis by simp
qed

section \<open>Verification of the dispatcher\<close>

lemma lookupKey_unknown:
  "name \<notin> set (map fst toolTable) \<Longrightarrow> lookupKey name = Inherited \<or> lookupKey name = Undefined"
proof -
  assume "name \<notin> set (map fst toolTable)"
  then have "map_of toolTable name = None" by (simp add: map_of_eq_None_iff)
  then show ?thesis by (simp add: lookupKey_def)
qed

lemma callTool_caught:
  assumes "lookupKey name \<noteq> Undefined"
    and "callTool_try parse handlers (lookupKey name) args s = (Inl c, s')"
  shows "callTool parse render handlers name args s =
     (createErrorResponse
        (case c of
           ZodError errors \<Rightarrow>
             ''Invalid arguments for '' @ name @ '': '' @ stringifyErrors render errors
         | ErrorInstance m \<Rightarrow> ''Tool execution failed: '' @ m
         | NonError v \<Rightarrow> ''Tool execution failed: '' @ v), s')"
  using assms by (cases "lookupKey name"; cases c) (simp_all add: callTool_def)

lemma callTool_rejected:
  assumes "lookupKey name = Own t" and "parse t args = Inl issues"
  shows "callTool parse render handlers name args s =
     (createErrorResponse
        (''Invalid arguments for '' @ name @ '': '' @ stringifyErrors render issues), s)"
proof -
  have tr: "callTool_try parse handlers (lookupKey name) args s = (Inl (ZodError issues), s)"
    by (simp add: callTool_try_def assms)
  from callTool_caught[OF _ tr, of render] assms(1) show ?thesis by simp
qed

subsection \<open>What the validation reports\<close>

lemma sublist_between: "sublist x (a @ x @ b)"
  unfolding sublist_def by blast

lemma sublist_within: "sublist x y \<Longrightarrow> sublist y z \<Longrightarrow> sublist x z"
  unfolding sublist_def by (metis append.assoc)

lemma join_Cons: "\<exists>rest. join sep (x # xs) = x @ rest"
  by (cases xs) simp_all

lemma plain_keys: "(k, kind, optional) \<in> set (shape t) \<Longrightarrow> jsonString k = quoted k"
  by (cases t) (auto simp: jsonString_def jsonEscape_def)

lemma plain_kinds: "jsonString (kindName kind) = quoted (kindName kind)"
  by (cases kind) (simp_all add: jsonString_def jsonEscape_def)

lemma issue_in_message:
  assumes "i \<in> set issues"
  shows "sublist (render i)
           (''Invalid arguments for '' @ name @ '': '' @ stringifyErrors render issues)"
proof -
  from assms have "sublist (render i) (join '','' (map render issues))"
    by (intro sublist_join) simp
  then have "sublist (render i) (join '','' (map render issues) @ '']'')"
    unfolding sublist_def by (metis append.assoc)
  then have "sublist (render i)
      ((''Invalid arguments for '' @ name @ '': '' @ ''['')
       @ join '','' (map render issues) @ '']'')"
    by (rule sublist_prepend)
  then show ?thesis by (simp add: stringifyErrors_def)
qed

lemma path_in_issue:
  assumes "issuePath i = Key k # rest"
  shows "sublist (quoted ''path'' @ '':['' @ jsonString k) (issueJson dataJson i)"
proof -
  obtain r where r: "join '','' (map pathElementJson (Key k # rest)) = jsonString k @ r"
    using join_Cons[of "'',''" "jsonString k" "map pathElementJson rest"] by auto
  have "\<exists>a b. issueJson dataJson i = a @ (quoted ''path'' @ '':['' @ jsonString k) @ b"
    unfolding issueJson_def pathJson_def assms r
    by (metis append.assoc append_Cons append_Nil)
  then show ?thesis unfolding sublist_def by blast
qed

lemma fieldIssues_path:
  assumes "i \<in> set (fieldIssues check t fields' (k, kind, optional))"
  shows "\<exists>rest. issuePath i = Key k # rest"
  using assms
  by (auto simp: fieldIssues_def invalidType_def under_def split: if_splits)

lemma violated_key_in_message:
  assumes "k \<in> set (violatedKeys check t fields')"
  shows "sublist (quoted ''path'' @ '':['' @ quoted k)
           (''Invalid arguments for '' @ name @ '': ''
            @ stringifyErrors (issueJson dataJson)
                (concat (map (fieldIssues check t fields') (shape t))))"
proof -
  from assms obtain kind optional where
    e: "(k, kind, optional) \<in> set (shape t)"
    and n: "fieldIssues check t fields' (k, kind, optional) \<noteq> []"
    by (auto simp: violatedKeys_def)
  from n obtain i where i: "i \<in> set (fieldIssues check t fields' (k, kind, optional))"
    by (cases "fieldIssues check t fields' (k, kind, optional)") auto
  from fieldIssues_path[OF i] obtain rest where p: "issuePath i = Key k # rest" by blast
  from e i have m: "i \<in> set (concat (map (fieldIssues check t fields') (shape t)))"
    by auto
  have "sublist (quoted ''path'' @ '':['' @ jsonString k) (issueJson dataJson i)"
    using path_in_issue[OF p] .
  then have "sublist (quoted ''path'' @ '':['' @ quoted k) (issueJson dataJson i)"
    by (simp add: plain_keys[OF e])
  then show ?thesis using issue_in_message[OF m] by (rule sublist_within)
qed

lemma zodParse_violated:
  assumes "violatedKeys check t fields' \<noteq> []"
  shows "zodParse check t (JObject fields') =
           Inl (concat (map (fieldIssues check t fields') (shape t)))"
proof -
  from assms obtain e where "e \<in> set (shape t)" "fieldIssues check t fields' e \<noteq> []"
    by (auto simp: violatedKeys_def filter_empty_conv)
  then have "concat (map (fieldIssues check t fields') (shape t)) \<noteq> []" by auto
  then show ?thesis by (simp add: zodParse_def Let_def)
qed

lemma missing_key_violated:
  assumes "(k, kind, False) \<in> set (shape t)" and "propertyOf fields' k = JUndefined"
  shows "k \<in> set (violatedKeys check t fields')"
    and "invalidType (kindName kind) ''undefined'' [Key k]
           \<in> set (concat (map (fieldIssues check t fields') (shape t)))"
proof -
  have f: "fieldIssues check t fields' (k, kind, False) =
      [invalidType (kindName kind) ''undefined'' [Key k]]"
    using assms(2) by (simp add: fieldIssues_def)
  from assms(1) f have "(k, kind, False) \<in> set (filter (\<lambda>entry. fieldIssues check t fields' entry \<noteq> []) (shape t))"
    by simp
  then show "k \<in> set (violatedKeys check t fields')"
    unfolding violatedKeys_def by force
  from assms(1) f show "invalidType (kindName kind) ''undefined'' [Key k]
           \<in> set (concat (map (fieldIssues check t fields') (shape t)))"
    by force
qed

lemma missing_key_issue:
  assumes "(k, kind, optional) \<in> set (shape t)"
  shows "issueJson dataJson (invalidType (kindName kind) ''undefined'' [Key k]) =
     ''{'' @ quoted ''code'' @ '':'' @ quoted ''invalid_type'' @ '',''
     @ quoted ''expected'' @ '':'' @ quoted (kindName kind) @ '',''
     @ quoted ''received'' @ '':'' @ quoted ''undefined'' @ '',''
     @ quoted ''path'' @ '':['' @ quoted k @ ''],''
     @ quoted ''message'' @ '':'' @ quoted ''Required'' @ ''}''"
proof -
  have u: "jsonString ''undefined'' = quoted ''undefined''"
    "jsonString ''Required'' = quoted ''Required''"
    by (simp_all add: jsonString_def jsonEscape_def)
  show ?thesis
    by (simp add: issueJson_def invalidType_def pathJson_def plain_keys[OF assms] plain_kinds u)
qed

lemma not_object_issue:
  "issueJson dataJson (invalidType ''object'' (parsedType args) []) =
     ''{'' @ quoted ''code'' @ '':'' @ quoted ''invalid_type'' @ '',''
     @ quoted ''expected'' @ '':'' @ quoted ''object'' @ '',''
     @ quoted ''received'' @ '':'' @ quoted (parsedType args) @ '',''
     @ quoted ''path'' @ '':[],''
     @ quoted ''message'' @ '':''
     @ quoted (if args = JUndefined then ''Required''
               else ''Expected object, received '' @ parsedType args) @ ''}''"
proof -
  have o: "jsonString ''object'' = quoted ''object''"
    "jsonString ''Required'' = quoted ''Required''"
    by (simp_all add: jsonString_def jsonEscape_def)
  have p: "jsonString (parsedType args) = quoted (parsedType args)"
    by (cases args) (simp_all add: jsonString_def jsonEscape_def)
  have e: "jsonString (''Expected object, received '' @ parsedType args) =
      quoted (''Expected object, received '' @ parsedType args)"
    by (cases args) (simp_all add: jsonString_def jsonEscape_def)
  have u: "(parsedType args = ''undefined'') = (args = JUndefined)"
    by (cases args) simp_all
  show ?thesis
    using e by (simp add: issueJson_def invalidType_def pathJson_def o p u)
qed

text \<open>
  C5, as the claim states it, fails on a call that has no arguments object: every required
  field of delete-sheet is missing, the dispatcher answers with an error envelope, but the
  message names no field. The validation reports one issue, that an object is required, at
  the empty path, and the names \<open>spreadsheetId\<close> and \<open>sheetTitle\<close> do not occur in the
  message.
\<close>

theorem callTool_error_envelopes_counterexample:
  "lookupKey ''delete-sheet'' = Own DeleteSheetTool
   \<and> map fst (shape DeleteSheetTool) = [''spreadsheetId'', ''sheetTitle'']
   \<and> callTool (zodParse acceptPresent) (issueJson noData) answerDone ''delete-sheet'' JUndefined (0::nat) =
       (createErrorResponse
          (''Invalid arguments for delete-sheet: [{'' @ quoted ''code'' @ '':'' @ quoted ''invalid_type''
           @ '','' @ quoted ''expected'' @ '':'' @ quoted ''object''
           @ '','' @ quoted ''received'' @ '':'' @ quoted ''undefined''
           @ '','' @ quoted ''path'' @ '':[],''
           @ quoted ''message'' @ '':'' @ quoted ''Required'' @ ''}]''), 0)
   \<and> \<not> sublist ''spreadsheetId''
         (''Invalid arguments for delete-sheet: [{'' @ quoted ''code'' @ '':'' @ quoted ''invalid_type''
           @ '','' @ quoted ''expected'' @ '':'' @ quoted ''object''
           @ '','' @ quoted ''received'' @ '':'' @ quoted ''undefined''
           @ '','' @ quoted ''path'' @ '':[],''
           @ quoted ''message'' @ '':'' @ quoted ''Required'' @ ''}]'')
   \<and> \<not> sublist ''sheetTitle''
         (''Invalid arguments for delete-sheet: [{'' @ quoted ''code'' @ '':'' @ quoted ''invalid_type''
           @ '','' @ quoted ''expected'' @ '':'' @ quoted ''object''
           @ '','' @ quoted ''received'' @ '':'' @ quoted ''undefined''
           @ '','' @ quoted ''path'' @ '':[],''
           @ quoted ''message'' @ '':'' @ quoted ''Required'' @ ''}]'')"
  by code_simp

text \<open>
  C5, amended. The dispatcher answers every call with an envelope. For a name that is not
  one of the eleven tool names the envelope is an error envelope, and the state is
  untouched. For a tool called with an arguments object in which the validation rejects at
  least one field of the schema, the handler is not invoked and the envelope is the error
  envelope whose message is \<open>Invalid arguments for\<close>, the name, and the array of all the
  issues of the validation; every rejected field is named in the message, as the first
  element of the path of an issue. A required field that the object does not hold is
  rejected, and the message holds its issue: the type expected, \<open>undefined\<close> received, the
  field as the path, and the message \<open>Required\<close>. For a tool called with arguments that are
  not an object (or with none) the message holds one issue, at the empty path. Whatever
  the validation or the handler throws, the dispatcher answers with an error envelope. An
  error envelope differs from every success envelope by its \<open>isError\<close> flag.
\<close>

theorem callTool_error_envelopes:
  "(name \<notin> set (map fst toolTable) \<longrightarrow>
      isError (fst (callTool (zodParse check) (issueJson dataJson) handlers name args s)) = Some True
      \<and> snd (callTool (zodParse check) (issueJson dataJson) handlers name args s) = s)
   \<and> (lookupKey name = Undefined \<longrightarrow>
      callTool (zodParse check) (issueJson dataJson) handlers name args s =
        (createErrorResponse (''Unknown tool: '' @ name), s))
   \<and> (\<forall>t fields'. lookupKey name = Own t \<longrightarrow> args = JObject fields' \<longrightarrow>
        violatedKeys check t fields' \<noteq> [] \<longrightarrow>
        callTool (zodParse check) (issueJson dataJson) handlers name args s =
          (createErrorResponse
             (''Invalid arguments for '' @ name @ '': ''
              @ stringifyErrors (issueJson dataJson)
                  (concat (map (fieldIssues check t fields') (shape t)))), s)
        \<and> (\<forall>k \<in> set (violatedKeys check t fields').
              sublist (quoted ''path'' @ '':['' @ quoted k)
                (''Invalid arguments for '' @ name @ '': ''
                 @ stringifyErrors (issueJson dataJson)
                     (concat (map (fieldIssues check t fields') (shape t))))))
   \<and> (\<forall>t fields' k kind. lookupKey name = Own t \<longrightarrow> args = JObject fields' \<longrightarrow>
        (k, kind, False) \<in> set (shape t) \<longrightarrow> propertyOf fields' k = JUndefined \<longrightarrow>
        k \<in> set (violatedKeys check t fields')
        \<and> sublist
             (''{'' @ quoted ''code'' @ '':'' @ quoted ''invalid_type'' @ '',''
              @ quoted ''expected'' @ '':'' @ quoted (kindName kind) @ '',''
              @ quoted ''received'' @ '':'' @ quoted ''undefined'' @ '',''
              @ quoted ''path'' @ '':['' @ quoted k @ ''],''
              @ quoted ''message'' @ '':'' @ quoted ''Required'' @ ''}'')
             (''Invalid arguments for '' @ name @ '': ''
              @ stringifyErrors (issueJson dataJson)
                  (concat (map (fieldIssues check t fields') (shape t)))))
   \<and> (\<forall>t. lookupKey name = Own t \<longrightarrow> (\<forall>fields'. args \<noteq> JObject fields') \<longrightarrow>
        callTool (zodParse check) (issueJson dataJson) handlers name args s =
          (createErrorResponse
             (''Invalid arguments for '' @ name @ '': [''
              @ ''{'' @ quoted ''code'' @ '':'' @ quoted ''invalid_type'' @ '',''
              @ quoted ''expected'' @ '':'' @ quoted ''object'' @ '',''
              @ quoted ''received'' @ '':'' @ quoted (parsedType args) @ '',''
              @ quoted ''path'' @ '':[],''
              @ quoted ''message'' @ '':''
              @ quoted (if args = JUndefined then ''Required''
                        else ''Expected object, received '' @ parsedType args) @ ''}''
              @ '']''), s))
   \<and> (\<forall>c s'. callTool_try (zodParse check) handlers (lookupKey name) args s = (Inl c, s') \<longrightarrow>
        isError (fst (callTool (zodParse check) (issueJson dataJson) handlers name args s)) = Some True)
   \<and> (\<forall>m text'. isError (createErrorResponse m) \<noteq> isError (createTextResponse text'))"
  (is "?A \<and> ?B \<and> ?C \<and> ?M \<and> ?N \<and> ?D \<and> ?E")
proof -
  let ?call = "callTool (zodParse check) (issueJson dataJson) handlers name args s"
  have A: "isError (fst ?call) = Some True \<and> snd ?call = s"
    if u: "name \<notin> set (map fst toolTable)"
    using lookupKey_unknown[OF u]
    by (auto simp: callTool_def callTool_try_def createErrorResponse_def)
  have B: "?call = (createErrorResponse (''Unknown tool: '' @ name), s)"
    if "lookupKey name = Undefined"
    using that by (simp add: callTool_def)
  have C: "?call =
          (createErrorResponse
             (''Invalid arguments for '' @ name @ '': ''
              @ stringifyErrors (issueJson dataJson)
                  (concat (map (fieldIssues check t fields') (shape t)))), s)
        \<and> (\<forall>k \<in> set (violatedKeys check t fields').
              sublist (quoted ''path'' @ '':['' @ quoted k)
                (''Invalid arguments for '' @ name @ '': ''
                 @ stringifyErrors (issueJson dataJson)
                     (concat (map (fieldIssues check t fields') (shape t)))))"
    if o: "lookupKey name = Own t" and a: "args = JObject fields'"
      and v: "violatedKeys check t fields' \<noteq> []" for t fields'
  proof -
    have p: "zodParse check t args = Inl (concat (map (fieldIssues check t fields') (shape t)))"
      unfolding a using v by (rule zodParse_violated)
    have c1: "?call =
          (createErrorResponse
             (''Invalid arguments for '' @ name @ '': ''
              @ stringifyErrors (issueJson dataJson)
                  (concat (map (fieldIssues check t fields') (shape t)))), s)"
      using callTool_rejected[where parse = "zodParse check", OF o p] .
    have c2: "\<forall>k \<in> set (violatedKeys check t fields').
              sublist (quoted ''path'' @ '':['' @ quoted k)
                (''Invalid arguments for '' @ name @ '': ''
                 @ stringifyErrors (issueJson dataJson)
                     (concat (map (fieldIssues check t fields') (shape t))))"
      by (intro ballI violated_key_in_message)
    show ?thesis by (rule conjI[OF c1 c2])
  qed
  have M: "k \<in> set (violatedKeys check t fields')
        \<and> sublist
             (''{'' @ quoted ''code'' @ '':'' @ quoted ''invalid_type'' @ '',''
              @ quoted ''expected'' @ '':'' @ quoted (kindName kind) @ '',''
              @ quoted ''received'' @ '':'' @ quoted ''undefined'' @ '',''
              @ quoted ''path'' @ '':['' @ quoted k @ ''],''
              @ quoted ''message'' @ '':'' @ quoted ''Required'' @ ''}'')
             (''Invalid arguments for '' @ name @ '': ''
              @ stringifyErrors (issueJson dataJson)
                  (concat (map (fieldIssues check t fields') (shape t))))"
    if e: "(k, kind, False) \<in> set (shape t)" and u: "propertyOf fields' k = JUndefined"
    for t fields' k kind
  proof -
    have m1: "k \<in> set (violatedKeys check t fields')"
      by (rule missing_key_violated(1)[OF e u])
    have "sublist (issueJson dataJson (invalidType (kindName kind) ''undefined'' [Key k]))
             (''Invalid arguments for '' @ name @ '': ''
              @ stringifyErrors (issueJson dataJson)
                  (concat (map (fieldIssues check t fields') (shape t))))"
      by (rule issue_in_message[OF missing_key_violated(2)[OF e u]])
    then have m2: "sublist
             (''{'' @ quoted ''code'' @ '':'' @ quoted ''invalid_type'' @ '',''
              @ quoted ''expected'' @ '':'' @ quoted (kindName kind) @ '',''
              @ quoted ''received'' @ '':'' @ quoted ''undefined'' @ '',''
              @ quoted ''path'' @ '':['' @ quoted k @ ''],''
              @ quoted ''message'' @ '':'' @ quoted ''Required'' @ ''}'')
             (''Invalid arguments for '' @ name @ '': ''
              @ stringifyErrors (issueJson dataJson)
                  (concat (map (fieldIssues check t fields') (shape t))))"
      by (simp only: missing_key_issue[OF e])
    show ?thesis by (rule conjI[OF m1 m2])
  qed
  have N: "?call =
          (createErrorResponse
             (''Invalid arguments for '' @ name @ '': [''
              @ ''{'' @ quoted ''code'' @ '':'' @ quoted ''invalid_type'' @ '',''
              @ quoted ''expected'' @ '':'' @ quoted ''object'' @ '',''
              @ quoted ''received'' @ '':'' @ quoted (parsedType args) @ '',''
              @ quoted ''path'' @ '':[],''
              @ quoted ''message'' @ '':''
              @ quoted (if args = JUndefined then ''Required''
                        else ''Expected object, received '' @ parsedType args) @ ''}''
              @ '']''), s)"
    if o: "lookupKey name = Own t" and a: "\<forall>fields'. args \<noteq> JObject fields'" for t
  proof -
    have p: "zodParse check t args = Inl [invalidType ''object'' (parsedType args) []]"
      using a by (cases args) (simp_all add: zodParse_def)
    have "?call = (createErrorResponse
        (''Invalid arguments for '' @ name @ '': ''
         @ stringifyErrors (issueJson dataJson) [invalidType ''object'' (parsedType args) []]), s)"
      using callTool_rejected[where parse = "zodParse check", OF o p] .
    also have "stringifyErrors (issueJson dataJson) [invalidType ''object'' (parsedType args) []]
        = ''['' @ issueJson dataJson (invalidType ''object'' (parsedType args) []) @ '']''"
      by (simp add: stringifyErrors_def)
    finally show ?thesis by (simp add: not_object_issue)
  qed
  have D: "isError (fst ?call) = Some True"
    if tr: "callTool_try (zodParse check) handlers (lookupKey name) args s = (Inl c, s')" for c s'
  proof (cases "lookupKey name = Undefined")
    case True
    then show ?thesis by (simp add: callTool_def createErrorResponse_def)
  next
    case False
    from callTool_caught[OF False tr, of "issueJson dataJson"] show ?thesis
      by (simp add: createErrorResponse_def)
  qed
  have E: "isError (createErrorResponse m) \<noteq> isError (createTextResponse text')" for m text'
    by (simp add: createErrorResponse_def createTextResponse_def)
  have A': ?A by (intro impI A)
  have B': ?B by (intro impI B)
  have C': ?C by (intro allI impI C)
  have M': ?M by (intro allI impI M)
  have N': ?N by (rule allI, rule impI, rule impI, rule N, assumption+)
  have D': ?D by (intro allI impI D)
  have E': ?E by (intro allI E)
  show ?thesis
    by (rule conjI[OF A' conjI[OF B' conjI[OF C' conjI[OF M' conjI[OF N' conjI[OF D' E']]]]]])
qed

theorem callTool_error_envelopes_witness:
  "lookupKey ''delete-sheet'' = Own DeleteSheetTool
   \<and> (''sheetTitle'', KString, False) \<in> set (shape DeleteSheetTool)
   \<and> propertyOf [(''spreadsheetId'', JString ''X'')] ''sheetTitle'' = JUndefined
   \<and> violatedKeys acceptPresent DeleteSheetTool [(''spreadsheetId'', JString ''X'')] = [''sheetTitle'']
   \<and> callTool (zodParse acceptPresent) (issueJson noData) answerDone ''delete-sheet''
        (JObject [(''spreadsheetId'', JString ''X'')]) (0::nat) =
       (createErrorResponse
          (''Invalid arguments for delete-sheet: [{'' @ quoted ''code'' @ '':'' @ quoted ''invalid_type''
           @ '','' @ quoted ''expected'' @ '':'' @ quoted ''string''
           @ '','' @ quoted ''received'' @ '':'' @ quoted ''undefined''
           @ '','' @ quoted ''path'' @ '':['' @ quoted ''sheetTitle'' @ ''],''
           @ quoted ''message'' @ '':'' @ quoted ''Required'' @ ''}]''), 0)
   \<and> sublist (quoted ''path'' @ '':['' @ quoted ''sheetTitle'')
        (''Invalid arguments for delete-sheet: [{'' @ quoted ''code'' @ '':'' @ quoted ''invalid_type''
           @ '','' @ quoted ''expected'' @ '':'' @ quoted ''string''
           @ '','' @ quoted ''received'' @ '':'' @ quoted ''undefined''
           @ '','' @ quoted ''path'' @ '':['' @ quoted ''sheetTitle'' @ ''],''
           @ quoted ''message'' @ '':'' @ quoted ''Required'' @ ''}]'')
   \<and> ''toString'' \<notin> set (map fst toolTable)
   \<and> isError (fst (callTool (zodParse acceptPresent) (issueJson noData) answerDone
        ''toString'' JUndefined (0::nat))) = Some True"
proof -
  let ?fields = "[(''spreadsheetId'', JString ''X'')]"
  have k: "lookupKey ''delete-sheet'' = Own DeleteSheetTool" by code_simp
  have e: "(''sheetTitle'', KString, False) \<in> set (shape DeleteSheetTool)" by simp
  have u: "propertyOf ?fields ''sheetTitle'' = JUndefined" by (simp add: propertyOf_def)
  have v: "violatedKeys acceptPresent DeleteSheetTool ?fields = [''sheetTitle'']"
    by (simp add: violatedKeys_def fieldIssues_def propertyOf_def acceptPresent_def)
  have i: "concat (map (fieldIssues acceptPresent DeleteSheetTool ?fields) (shape DeleteSheetTool)) =
      [invalidType ''string'' ''undefined'' [Key ''sheetTitle'']]"
    by (simp add: fieldIssues_def propertyOf_def acceptPresent_def)
  have j: "stringifyErrors (issueJson noData) [invalidType ''string'' ''undefined'' [Key ''sheetTitle'']] =
      ''[{'' @ quoted ''code'' @ '':'' @ quoted ''invalid_type''
           @ '','' @ quoted ''expected'' @ '':'' @ quoted ''string''
           @ '','' @ quoted ''received'' @ '':'' @ quoted ''undefined''
           @ '','' @ quoted ''path'' @ '':['' @ quoted ''sheetTitle'' @ ''],''
           @ quoted ''message'' @ '':'' @ quoted ''Required'' @ ''}]''"
    using missing_key_issue[OF e, of noData] by (simp add: stringifyErrors_def)
  have n: "''toString'' \<notin> set (map fst toolTable)" by (simp add: toolTable_def)
  from callTool_error_envelopes[of "''delete-sheet''" acceptPresent noData answerDone
      "JObject ?fields" "0::nat"]
  have "callTool (zodParse acceptPresent) (issueJson noData) answerDone ''delete-sheet''
          (JObject ?fields) (0::nat) =
          (createErrorResponse
             (''Invalid arguments for '' @ ''delete-sheet'' @ '': ''
              @ stringifyErrors (issueJson noData)
                  (concat (map (fieldIssues acceptPresent DeleteSheetTool ?fields) (shape DeleteSheetTool)))), 0)
        \<and> sublist (quoted ''path'' @ '':['' @ quoted ''sheetTitle'')
                (''Invalid arguments for '' @ ''delete-sheet'' @ '': ''
                 @ stringifyErrors (issueJson noData)
                     (concat (map (fieldIssues acceptPresent DeleteSheetTool ?fields) (shape DeleteSheetTool))))"
    using k v by auto
  then have first: "callTool (zodParse acceptPresent) (issueJson noData) answerDone ''delete-sheet''
        (JObject ?fields) (0::nat) =
       (createErrorResponse
          (''Invalid arguments for delete-sheet: [{'' @ quoted ''code'' @ '':'' @ quoted ''invalid_type''
           @ '','' @ quoted ''expected'' @ '':'' @ quoted ''string''
           @ '','' @ quoted ''received'' @ '':'' @ quoted ''undefined''
           @ '','' @ quoted ''path'' @ '':['' @ quoted ''sheetTitle'' @ ''],''
           @ quoted ''message'' @ '':'' @ quoted ''Required'' @ ''}]''), 0)
   \<and> sublist (quoted ''path'' @ '':['' @ quoted ''sheetTitle'')
        (''Invalid arguments for delete-sheet: [{'' @ quoted ''code'' @ '':'' @ quoted ''invalid_type''
           @ '','' @ quoted ''expected'' @ '':'' @ quoted ''string''
           @ '','' @ quoted ''received'' @ '':'' @ quoted ''undefined''
           @ '','' @ quoted ''path'' @ '':['' @ quoted ''sheetTitle'' @ ''],''
           @ quoted ''message'' @ '':'' @ quoted ''Required'' @ ''}]'')"
    unfolding i j by simp
  from callTool_error_envelopes[of "''toString''" acceptPresent noData answerDone
      JUndefined "0::nat"] n
  have second: "isError (fst (callTool (zodParse acceptPresent) (issueJson noData) answerDone
        ''toString'' JUndefined (0::nat))) = Some True"
    by blast
  from first second k e u v n show ?thesis by blast
qed

end
